theory Spec2Isabelle
  imports Main "HOL-Library.Word"
begin

section \<open>Python values used by the CFR decompiler server\<close>

text \<open>
  A Python \<open>str\<close> is a sequence of Unicode code points, a \<open>bytes\<close> object a sequence of
  octets. String literals of the source are written with \<open>lit\<close>; the few non-ASCII
  characters of the source's messages are given by their code points.
\<close>

type_synonym pystr = "nat list"
type_synonym pybytes = "8 word list"

definition lit :: "string \<Rightarrow> pystr" where
  "lit s = map of_char s"

text \<open>\<open>s.startswith(p)\<close>, \<open>s.endswith(p)\<close> and the substring test \<open>x in s\<close>.\<close>

fun startswith :: "'a list \<Rightarrow> 'a list \<Rightarrow> bool" where
  "startswith s [] = True"
| "startswith [] (p # ps) = False"
| "startswith (c # cs) (p # ps) = (c = p \<and> startswith cs ps)"

definition endswith :: "'a list \<Rightarrow> 'a list \<Rightarrow> bool" where
  "endswith s p = (length p \<le> length s \<and> drop (length s - length p) s = p)"

fun py_in :: "'a list \<Rightarrow> 'a list \<Rightarrow> bool" where
  "py_in x [] = (x = [])"
| "py_in x (c # cs) = (startswith (c # cs) x \<or> py_in x cs)"

text \<open>
  \<open>s.replace(old, new)\<close>: every non-overlapping occurrence of \<open>old\<close>, scanning from the
  left. With an empty \<open>old\<close> Python puts \<open>new\<close> before every character and at the end.
\<close>

function replace_from :: "'a list \<Rightarrow> 'a list \<Rightarrow> 'a list \<Rightarrow> 'a list" where
  "replace_from old new [] = []"
| "replace_from old new (c # cs) =
     (if old \<noteq> [] \<and> startswith (c # cs) old
      then new @ replace_from old new (drop (length old) (c # cs))
      else c # replace_from old new cs)"
  by pat_completeness auto
termination
  by (relation "measure (\<lambda>(old, new, s). length s)") (auto simp: neq_Nil_conv)

definition py_replace :: "'a list \<Rightarrow> 'a list \<Rightarrow> 'a list \<Rightarrow> 'a list" where
  "py_replace s old new =
     (if old = [] then new @ concat (map (\<lambda>c. c # new) s) else replace_from old new s)"

text \<open>\<open>str.isspace\<close> for one code point, and \<open>s.strip()\<close>.\<close>

definition py_isspace :: "nat \<Rightarrow> bool" where
  "py_isspace c =
     ((9 \<le> c \<and> c \<le> 13) \<or> (28 \<le> c \<and> c \<le> 32) \<or> c = 133 \<or> c = 160 \<or> c = 5760
      \<or> (8192 \<le> c \<and> c \<le> 8202) \<or> c = 8232 \<or> c = 8233 \<or> c = 8239 \<or> c = 8287
      \<or> c = 12288)"

definition py_strip :: "pystr \<Rightarrow> pystr" where
  "py_strip s = rev (dropWhile py_isspace (rev (dropWhile py_isspace s)))"

text \<open>
  \<open>s.lower()\<close> on the ASCII letters. The source applies it to \<open>True\<close>/\<open>False\<close> and to a
  path suffix that is then compared with \<open>.jar\<close>; no code point outside ASCII lowers to
  one of the characters of \<open>.jar\<close>, so leaving those code points alone does not change
  that comparison.
\<close>

definition lower_char :: "nat \<Rightarrow> nat" where
  "lower_char c = (if 65 \<le> c \<and> c \<le> 90 then c + 32 else c)"

definition py_lower :: "pystr \<Rightarrow> pystr" where
  "py_lower s = map lower_char s"

text \<open>\<open>str(n)\<close> for an integer, and \<open>sep.join(xs)\<close>.\<close>

fun str_nat :: "nat \<Rightarrow> pystr" where
  "str_nat n = (if n < 10 then [48 + n] else str_nat (n div 10) @ [48 + n mod 10])"

definition str_int :: "int \<Rightarrow> pystr" where
  "str_int i = (if i < 0 then 45 # str_nat (nat (- i)) else str_nat (nat i))"

fun py_join :: "'a list \<Rightarrow> 'a list list \<Rightarrow> 'a list" where
  "py_join sep [] = []"
| "py_join sep [x] = x"
| "py_join sep (x # y # ys) = x @ sep @ py_join sep (y # ys)"

text \<open>
  Exceptions, all subclasses of Python's \<open>Exception\<close>, each with its \<open>str(e)\<close> text. A
  function that can raise returns \<open>exn + 'a\<close>.
\<close>

datatype exn_class = ValueError | UnicodeEncodeError | TimeoutExpired | OtherException

datatype exn = Exn (exn_class_of: exn_class) (exn_str: pystr)

text \<open>
  \<open>s.encode('utf-8')\<close>: one to four octets per code point; a surrogate (D800 to DFFF)
  raises UnicodeEncodeError. A Python string holds no code point above 10FFFF.
\<close>

definition utf8_char :: "nat \<Rightarrow> pybytes option" where
  "utf8_char c =
     (if c < 0x80 then Some [of_nat c]
      else if c < 0x800 then Some [of_nat (0xC0 + c div 0x40), of_nat (0x80 + c mod 0x40)]
      else if 0xD800 \<le> c \<and> c \<le> 0xDFFF then None
      else if c < 0x10000 then
        Some [of_nat (0xE0 + c div 0x1000), of_nat (0x80 + (c div 0x40) mod 0x40),
              of_nat (0x80 + c mod 0x40)]
      else if c < 0x110000 then
        Some [of_nat (0xF0 + c div 0x40000), of_nat (0x80 + (c div 0x1000) mod 0x40),
              of_nat (0x80 + (c div 0x40) mod 0x40), of_nat (0x80 + c mod 0x40)]
      else None)"

fun encode_utf8 :: "pystr \<Rightarrow> exn + pybytes" where
  "encode_utf8 [] = Inr []"
| "encode_utf8 (c # cs) =
     (case utf8_char c of
        None \<Rightarrow> Inl (Exn UnicodeEncodeError (lit ''surrogates not allowed''))
      | Some bs \<Rightarrow> (case encode_utf8 cs of Inl e \<Rightarrow> Inl e | Inr rest \<Rightarrow> Inr (bs @ rest)))"

section \<open>Option Sanitizer\<close>

text \<open>
  \<open>validate_option_key\<close> is \<open>bool(re.match(r'^[a-zA-Z0-9]+$', key))\<close>. In Python's \<open>re\<close>,
  without the MULTILINE flag, \<open>^\<close> matches at the start and \<open>$\<close> matches at the end of the
  string and also just before a newline that is the last character. The greedy class
  takes the longest run of ASCII letters and digits; what is left must be empty or one
  newline.
\<close>

definition is_alnum :: "nat \<Rightarrow> bool" where
  "is_alnum c = ((97 \<le> c \<and> c \<le> 122) \<or> (65 \<le> c \<and> c \<le> 90) \<or> (48 \<le> c \<and> c \<le> 57))"

definition validate_option_key :: "pystr \<Rightarrow> bool" where
  "validate_option_key key =
     (let rest = dropWhile is_alnum key
      in takeWhile is_alnum key \<noteq> [] \<and> (rest = [] \<or> rest = [10]))"

section \<open>The environment\<close>

text \<open>
  What the program reads from outside itself is a parameter of the model: the file
  system (\<open>Path.resolve\<close>, \<open>Path.exists\<close>, \<open>Path.stat\<close>), the archive behind a path
  (\<open>zipfile.ZipFile\<close> with \<open>infolist\<close>, each entry with the outcome of reading it), the
  extraction of a member into the temporary directory, and the child process started by
  \<open>subprocess.run\<close>. \<open>Path(s).resolve()\<close> and \<open>Path.exists()\<close> can raise (a string with an
  embedded NUL, a loop of symbolic links, a name that is too long), so they return
  \<open>exn + path\<close> and \<open>exn + bool\<close>. The world does not change during one call, and creating
  the temporary directory does not fail. The global logger is installed by \<open>main\<close>
  before a server is created; logging calls are not modelled.
\<close>

datatype proc_result = Completed pystr pystr | ProcRaised exn

record zip_entry =
  filename :: pystr
  content :: "exn + pybytes"

record path =
  path_str :: pystr
  path_name :: pystr
  path_suffix :: pystr

record world =
  resolve :: "pystr \<Rightarrow> exn + path"
  path_exists :: "pystr \<Rightarrow> exn + bool"
  st_size :: "pystr \<Rightarrow> nat"
  open_zip :: "pystr \<Rightarrow> exn + zip_entry list"
  zip_extract :: "pystr \<Rightarrow> pystr \<Rightarrow> exn + pystr"
  subprocess_run :: "pystr list \<Rightarrow> nat \<Rightarrow> proc_result"

text \<open>
  The effects a call has on the outside: creating the temporary directory, extracting a
  member of the archive, and calling \<open>subprocess.run\<close> with a command vector and a
  timeout. Every function that has effects returns their trace beside its result.
\<close>

datatype event = MkTemp | Extract pystr | Subprocess "pystr list" nat

section \<open>Process Runner\<close>

definition CFR_JAR_PATH :: pystr where
  "CFR_JAR_PATH = lit ''cfr.jar''"

definition CMD_TIMEOUT_SECONDS :: nat where
  "CMD_TIMEOUT_SECONDS = 60"

text \<open>The body of the \<open>try\<close> block of \<open>run_cfr_sync\<close>: what \<open>subprocess.run\<close> raises leaves it.\<close>

definition run_cfr_try :: "world \<Rightarrow> pystr list \<Rightarrow> nat \<Rightarrow> exn + pystr" where
  "run_cfr_try w cmd timeout =
     (case subprocess_run w cmd timeout of
        Completed out err \<Rightarrow>
          Inr (if err \<noteq> [] \<and> length (py_strip err) > 0
               then out @ lit ''\<newline>\<newline>/*\<newline>[CFR STDERR]\<newline>'' @ err
                    @ lit ''\<newline>*/''
               else out)
      | ProcRaised e \<Rightarrow> Inl e)"

text \<open>The two handlers: \<open>except subprocess.TimeoutExpired\<close>, then \<open>except Exception as e\<close>.\<close>

definition run_cfr_sync :: "world \<Rightarrow> pystr list \<Rightarrow> (exn + pystr) \<times> event list" where
  "run_cfr_sync w cmd =
     (case run_cfr_try w cmd CMD_TIMEOUT_SECONDS of
        Inr output \<Rightarrow> Inr output
      | Inl e \<Rightarrow>
          (if exn_class_of e = TimeoutExpired
           then Inr (lit ''/* Error: Decompilation timed out. (''
                     @ [21453, 32534, 35793, 36229, 26102] @ lit '') */'')
           else Inr (lit ''/* Error executing CFR: '' @ exn_str e @ lit '' */'')),
      [Subprocess cmd CMD_TIMEOUT_SECONDS])"

section \<open>Archive Scanner\<close>

text \<open>
  The loop of \<open>find_classes_in_jar\<close> over \<open>jar.infolist()\<close>. Reading an entry can raise;
  the exception leaves the loop and is caught by the \<open>except\<close> around it, and the
  candidates collected so far are returned.
\<close>

fun find_classes_loop :: "pybytes \<Rightarrow> zip_entry list \<Rightarrow> pystr list \<Rightarrow> pystr list" where
  "find_classes_loop method_bytes [] candidates = candidates"
| "find_classes_loop method_bytes (file_info # rest) candidates =
     (if endswith (filename file_info) (lit ''.class'') then
        (case content file_info of
           Inl e \<Rightarrow> candidates
         | Inr c \<Rightarrow>
             find_classes_loop method_bytes rest
               (if py_in method_bytes c then candidates @ [filename file_info]
                else candidates))
      else find_classes_loop method_bytes rest candidates)"

text \<open>\<open>method_name.encode('utf-8')\<close> stands before the \<open>try\<close>: what it raises propagates.\<close>

definition find_classes_in_jar :: "world \<Rightarrow> path \<Rightarrow> pystr \<Rightarrow> exn + pystr list" where
  "find_classes_in_jar w jar_path method_name =
     (case encode_utf8 method_name of
        Inl e \<Rightarrow> Inl e
      | Inr method_bytes \<Rightarrow>
          Inr (case open_zip w (path_str jar_path) of
                 Inl e \<Rightarrow> []
               | Inr infolist \<Rightarrow> find_classes_loop method_bytes infolist []))"

fun find_class_loop :: "pystr \<Rightarrow> bool \<Rightarrow> zip_entry list \<Rightarrow> pystr list \<Rightarrow> pystr list" where
  "find_class_loop target_path exact_match [] candidates = candidates"
| "find_class_loop target_path exact_match (file_info # rest) candidates =
     find_class_loop target_path exact_match rest
       (if endswith (filename file_info) (lit ''.class'') then
          (if exact_match then
             (if filename file_info = target_path then candidates @ [filename file_info]
              else candidates)
           else
             (if endswith (filename file_info) (lit ''/'' @ target_path)
                 \<or> filename file_info = target_path
              then candidates @ [filename file_info]
              else candidates))
        else candidates)"

definition find_class_by_name_in_jar :: "world \<Rightarrow> path \<Rightarrow> pystr \<Rightarrow> pystr list" where
  "find_class_by_name_in_jar w jar_path cname =
     (let (target_path, exact_match) =
            (if py_in (lit ''.'') cname \<and> \<not> endswith cname (lit ''.class'')
             then (py_replace cname (lit ''.'') (lit ''/'') @ lit ''.class'', True)
             else (py_replace cname (lit ''.class'') [] @ lit ''.class'', False))
      in case open_zip w (path_str jar_path) of
           Inl e \<Rightarrow> []
         | Inr infolist \<Rightarrow> find_class_loop target_path exact_match infolist [])"

section \<open>Candidate Decompiler\<close>

text \<open>
  One iteration of the loop of \<open>decompile_jar_class_sync\<close>: the blocks it appends to
  \<open>results\<close> and its effects. The \<open>except Exception\<close> of the iteration appends a
  diagnostic block.
\<close>

definition decompile_class_candidate ::
  "world \<Rightarrow> path \<Rightarrow> pystr list \<Rightarrow> pystr \<Rightarrow> pystr list \<times> event list" where
  "decompile_class_candidate w jar_path base_cmd_args class_file =
     (case zip_extract w (path_str jar_path) class_file of
        Inl e \<Rightarrow>
          ([lit ''/* Failed to decompile '' @ class_file @ lit '': '' @ exn_str e @ lit '' */''],
           [Extract class_file])
      | Inr extracted_path \<Rightarrow>
          (let cmd = [lit ''java'', lit ''-jar'', CFR_JAR_PATH, extracted_path] @ base_cmd_args;
               (r, tr) = run_cfr_sync w cmd
           in (case r of
                 Inl e \<Rightarrow>
                   [lit ''/* Failed to decompile '' @ class_file @ lit '': '' @ exn_str e
                    @ lit '' */'']
               | Inr output \<Rightarrow>
                   (if output \<noteq> [] \<and> length (py_strip output) > 0
                    then [lit ''// Source: '' @ class_file @ lit ''\<newline>'' @ output]
                    else []),
               Extract class_file # tr)))"

fun decompile_class_loop ::
  "world \<Rightarrow> path \<Rightarrow> pystr list \<Rightarrow> pystr list \<Rightarrow> pystr list \<Rightarrow> event list
    \<Rightarrow> pystr list \<times> event list" where
  "decompile_class_loop w jar_path base_cmd_args [] results tr = (results, tr)"
| "decompile_class_loop w jar_path base_cmd_args (class_file # rest) results tr =
     (let (blocks, t) = decompile_class_candidate w jar_path base_cmd_args class_file
      in decompile_class_loop w jar_path base_cmd_args rest (results @ blocks) (tr @ t))"

definition decompile_jar_class_sync ::
  "world \<Rightarrow> path \<Rightarrow> pystr \<Rightarrow> pystr list \<Rightarrow> (exn + pystr) \<times> event list" where
  "decompile_jar_class_sync w jar_path cname base_cmd_args =
     (let candidates = find_class_by_name_in_jar w jar_path cname in
      if candidates = [] then
        (Inr (lit ''/* Class '' @ [39] @ cname @ [39] @ lit '' not found in ''
              @ path_name jar_path
              @ lit ''.\<newline>   Tips: \<newline>   - For simple name, use: 'BusTypeServiceImpl'\<newline>''
              @ lit ''   - For full path, use: 'nc.impl.fts.bustype.BusTypeServiceImpl'\<newline>*/''),
         [])
      else
        (case open_zip w (path_str jar_path) of
           Inl e \<Rightarrow> (Inl e, [MkTemp])
         | Inr jar \<Rightarrow>
             (let (results, tr) =
                    decompile_class_loop w jar_path base_cmd_args candidates [] [MkTemp]
              in (Inr (if results = []
                       then lit ''/* Found '' @ str_nat (length candidates)
                            @ lit '' class(es) but CFR produced no output. */''
                       else py_join (lit ''\<newline>\<newline>'') results),
                  tr))))"

text \<open>
  One iteration of the loop of \<open>decompile_jar_method_sync\<close>. Its \<open>except Exception\<close> only
  logs a warning: nothing is appended to \<open>results\<close>.
\<close>

definition decompile_method_candidate ::
  "world \<Rightarrow> path \<Rightarrow> pystr \<Rightarrow> pystr list \<Rightarrow> pystr \<Rightarrow> pystr list \<times> event list" where
  "decompile_method_candidate w jar_path method_name base_cmd_args class_file =
     (case zip_extract w (path_str jar_path) class_file of
        Inl e \<Rightarrow> ([], [Extract class_file])
      | Inr extracted_path \<Rightarrow>
          (let cmd = [lit ''java'', lit ''-jar'', CFR_JAR_PATH, extracted_path] @ base_cmd_args;
               (r, tr) = run_cfr_sync w cmd
           in (case r of
                 Inl e \<Rightarrow> []
               | Inr output \<Rightarrow>
                   (if py_in method_name output
                    then [lit ''// Source: '' @ class_file @ lit ''\<newline>'' @ output]
                    else []),
               Extract class_file # tr)))"

fun decompile_method_loop ::
  "world \<Rightarrow> path \<Rightarrow> pystr \<Rightarrow> pystr list \<Rightarrow> pystr list \<Rightarrow> pystr list \<Rightarrow> event list
    \<Rightarrow> pystr list \<times> event list" where
  "decompile_method_loop w jar_path method_name base_cmd_args [] results tr = (results, tr)"
| "decompile_method_loop w jar_path method_name base_cmd_args (class_file # rest) results tr =
     (let (blocks, t) =
            decompile_method_candidate w jar_path method_name base_cmd_args class_file
      in decompile_method_loop w jar_path method_name base_cmd_args rest
           (results @ blocks) (tr @ t))"

definition decompile_jar_method_sync ::
  "world \<Rightarrow> path \<Rightarrow> pystr \<Rightarrow> pystr list \<Rightarrow> (exn + pystr) \<times> event list" where
  "decompile_jar_method_sync w jar_path method_name base_cmd_args =
     (case find_classes_in_jar w jar_path method_name of
        Inl e \<Rightarrow> (Inl e, [])
      | Inr candidates \<Rightarrow>
          if candidates = [] then
            (Inr (lit ''/* Method '' @ [39] @ method_name @ [39]
                  @ lit '' not found in any class within '' @ path_name jar_path
                  @ lit '' (scanned '' @ str_nat (st_size w (path_str jar_path))
                  @ lit '' bytes) */''),
             [])
          else
            (case open_zip w (path_str jar_path) of
               Inl e \<Rightarrow> (Inl e, [MkTemp])
             | Inr jar \<Rightarrow>
                 (let (results, tr) =
                        decompile_method_loop w jar_path method_name base_cmd_args candidates
                          [] [MkTemp]
                  in (Inr (if results = []
                           then lit ''/* Method '' @ [39] @ method_name @ [39]
                                @ lit '' matched binary search in ''
                                @ str_nat (length candidates)
                                @ lit '' classes but CFR produced no output. */''
                           else py_join (lit ''\<newline>\<newline>'') results),
                      tr))))"

section \<open>Tool Dispatcher\<close>

text \<open>
  The arguments of a call of the \<open>decompile\<close> tool, typed as the tool's \<open>inputSchema\<close>
  declares them: three strings, two booleans and an object of options, each of which may
  be absent (\<open>arguments.get\<close> then gives \<open>None\<close>). The options are the pairs of
  \<open>extra_options.items()\<close> in their order. An option value is a JSON scalar; \<open>SOther\<close>
  stands for any other value and carries its \<open>str()\<close> text.

  Since Python 3.11 \<open>str()\<close> and \<open>repr()\<close> of an integer of more than 4300 decimal
  digits raise ValueError. The model renders every integer; \<open>convertible_arguments\<close>
  singles out the arguments whose integers are within that limit, and what a call raises
  is stated for those.
\<close>

datatype scalar = SNull | SBool bool | SInt int | SStr pystr | SOther pystr

record arguments =
  arg_file_path :: "pystr option"
  arg_class_name :: "pystr option"
  arg_method_name :: "pystr option"
  arg_ignore_exceptions :: "bool option"
  arg_hide_utf :: "bool option"
  arg_options :: "(pystr \<times> scalar) list option"

text \<open>
  Python's truth test of \<open>arguments.get(k)\<close>: \<open>None\<close> and the empty string are false, and
  so are \<open>None\<close> and \<open>False\<close> for a boolean. \<open>text_of\<close> is the string held, read by the
  source only after the truth test.
\<close>

definition int_max_str_digits :: nat where
  "int_max_str_digits = 4300"

fun within_str_limit :: "scalar \<Rightarrow> bool" where
  "within_str_limit (SInt i) = (length (str_nat (nat \<bar>i\<bar>)) \<le> int_max_str_digits)"
| "within_str_limit v = True"

definition convertible_arguments :: "arguments \<Rightarrow> bool" where
  "convertible_arguments args =
     (case arg_options args of
        None \<Rightarrow> True
      | Some kvs \<Rightarrow> list_all (\<lambda>kv. within_str_limit (snd kv)) kvs)"

definition truthy :: "pystr option \<Rightarrow> bool" where
  "truthy x = (case x of None \<Rightarrow> False | Some s \<Rightarrow> s \<noteq> [])"

definition truthy_bool :: "bool option \<Rightarrow> bool" where
  "truthy_bool x = (case x of None \<Rightarrow> False | Some b \<Rightarrow> b)"

definition text_of :: "pystr option \<Rightarrow> pystr" where
  "text_of x = (case x of None \<Rightarrow> [] | Some s \<Rightarrow> s)"

fun py_str :: "scalar \<Rightarrow> pystr" where
  "py_str SNull = lit ''None''"
| "py_str (SBool b) = (if b then lit ''True'' else lit ''False'')"
| "py_str (SInt i) = str_int i"
| "py_str (SStr s) = s"
| "py_str (SOther s) = s"

fun isinstance_bool :: "scalar \<Rightarrow> bool" where
  "isinstance_bool (SBool b) = True"
| "isinstance_bool v = False"

definition val_str :: "scalar \<Rightarrow> pystr" where
  "val_str v = (if isinstance_bool v then py_lower (py_str v) else py_str v)"

text \<open>The flags added before the options, and the loop over \<open>extra_options.items()\<close>.\<close>

definition fixed_flags :: "arguments \<Rightarrow> pystr list \<Rightarrow> pystr list" where
  "fixed_flags args acc =
     (let acc = (if truthy_bool (arg_ignore_exceptions args)
                 then acc @ [lit ''--ignoreexceptions'', lit ''true''] else acc);
          acc = (if truthy_bool (arg_hide_utf args)
                 then acc @ [lit ''--hideutf'', lit ''true''] else acc);
          acc = acc @ [lit ''--comments'', lit ''false''];
          acc = acc @ [lit ''--showversion'', lit ''false'']
      in acc)"

fun options_loop :: "(pystr \<times> scalar) list \<Rightarrow> pystr list \<Rightarrow> pystr list" where
  "options_loop [] acc = acc"
| "options_loop ((key, v) # rest) acc =
     (if \<not> validate_option_key key then options_loop rest acc
      else options_loop rest (acc @ [lit ''--'' @ key, val_str v]))"

definition extra_options :: "arguments \<Rightarrow> (pystr \<times> scalar) list" where
  "extra_options args = (case arg_options args of None \<Rightarrow> [] | Some kvs \<Rightarrow> kvs)"

text \<open>\<open>call_tool\<close> of \<open>cfr_mcp_server_v2.py\<close>; its result is the text of the one TextContent.\<close>

definition call_tool :: "world \<Rightarrow> pystr \<Rightarrow> arguments \<Rightarrow> (exn + pystr) \<times> event list" where
  "call_tool w name args =
     (if name \<noteq> lit ''decompile'' then
        (Inl (Exn ValueError (lit ''Unknown tool: '' @ name)), [])
      else if \<not> truthy (arg_file_path args) then
        (Inl (Exn ValueError (lit ''file_path is required'')), [])
      else
        (case resolve w (text_of (arg_file_path args)) of
           Inl e \<Rightarrow> (Inl e, [])
         | Inr p \<Rightarrow>
        (case path_exists w (path_str p) of
           Inl e \<Rightarrow> (Inl e, [])
         | Inr found \<Rightarrow>
         if \<not> found then
           (Inr (lit ''Error: File not found: '' @ path_str p), [])
         else
        (case path_exists w CFR_JAR_PATH of
           Inl e \<Rightarrow> (Inl e, [])
         | Inr cfr_found \<Rightarrow>
         if \<not> cfr_found then
           (Inr (lit ''Error: CFR jar not found at: '' @ CFR_JAR_PATH), [])
         else
           (let base_args = options_loop (extra_options args) (fixed_flags args []) in
            if py_lower (path_suffix p) = lit ''.jar'' then
              (if truthy (arg_class_name args) then
                 decompile_jar_class_sync w p (text_of (arg_class_name args)) base_args
               else if truthy (arg_method_name args) then
                 decompile_jar_method_sync w p (text_of (arg_method_name args))
                   (base_args @ [lit ''--methodname'', text_of (arg_method_name args)])
               else
                 run_cfr_sync w
                   ([lit ''java'', lit ''-jar'', CFR_JAR_PATH, path_str p] @ base_args))
            else
              (let base_args =
                     (if truthy (arg_method_name args)
                      then base_args @ [lit ''--methodname'', text_of (arg_method_name args)]
                      else base_args)
               in run_cfr_sync w
                    ([lit ''java'', lit ''-jar'', CFR_JAR_PATH, path_str p] @ base_args)))))))"

section \<open>The first server, \<open>cfr_mcp_server.py\<close>\<close>

definition CMD_TIMEOUT_SECONDS_v1 :: nat where
  "CMD_TIMEOUT_SECONDS_v1 = 30"

definition run_cfr_sync_v1 :: "world \<Rightarrow> pystr list \<Rightarrow> (exn + pystr) \<times> event list" where
  "run_cfr_sync_v1 w cmd =
     (case run_cfr_try w cmd CMD_TIMEOUT_SECONDS_v1 of
        Inr output \<Rightarrow> Inr output
      | Inl e \<Rightarrow>
          (if exn_class_of e = TimeoutExpired
           then Inr (lit ''/* Error: Decompilation timed out. File might be too complex or large. (''
                     @ [21453, 32534, 35793, 36229, 26102, 65292, 25991, 20214, 21487, 33021,
                        36807, 22823, 25110, 36807, 20110, 22797, 26434]
                     @ lit '') */'')
           else Inr (lit ''/* Error executing CFR ('' @ [25191, 34892] @ lit '' CFR ''
                     @ [20986, 38169] @ lit ''): '' @ exn_str e @ lit '' */'')),
      [Subprocess cmd CMD_TIMEOUT_SECONDS_v1])"

definition call_tool_v1 :: "world \<Rightarrow> pystr \<Rightarrow> arguments \<Rightarrow> (exn + pystr) \<times> event list" where
  "call_tool_v1 w name args =
     (if name \<noteq> lit ''decompile'' then
        (Inl (Exn ValueError (lit ''Unknown tool ('' @ [26410, 30693, 24037, 20855]
                               @ lit ''): '' @ name)), [])
      else if \<not> truthy (arg_file_path args) then
        (Inl (Exn ValueError (lit ''file_path is required ('' @ [38656, 35201]
                               @ lit '' file_path '' @ [21442, 25968] @ lit '')'')), [])
      else
        (case resolve w (text_of (arg_file_path args)) of
           Inl e \<Rightarrow> (Inl e, [])
         | Inr p \<Rightarrow>
        (case path_exists w (path_str p) of
           Inl e \<Rightarrow> (Inl e, [])
         | Inr found \<Rightarrow>
         if \<not> found then
           (Inr (lit ''Error: File not found ('' @ [25991, 20214, 26410, 25214, 21040]
                 @ lit ''): '' @ path_str p), [])
         else
        (case path_exists w CFR_JAR_PATH of
           Inl e \<Rightarrow> (Inl e, [])
         | Inr cfr_found \<Rightarrow>
         if \<not> cfr_found then
           (Inr (lit ''Error: CFR jar not found at (CFR jar '' @ [26410, 25214, 21040]
                 @ lit ''): '' @ CFR_JAR_PATH), [])
         else
           (let cmd = [lit ''java'', lit ''-jar'', CFR_JAR_PATH, path_str p];
                cmd = (if truthy (arg_method_name args)
                       then cmd @ [lit ''--methodname'', text_of (arg_method_name args)]
                       else cmd);
                cmd = options_loop (extra_options args) (fixed_flags args cmd)
            in run_cfr_sync_v1 w cmd)))))"

section \<open>A concrete archive\<close>

text \<open>
  The scenario of the specification: \<open>lib.jar\<close> holds \<open>A.class\<close>, whose bytes contain
  \<open>computeTotal\<close>, and \<open>B.class\<close>, whose bytes do not; here it also holds two classes
  named \<open>Foo\<close> in different packages and a manifest. The decompiler prints one method
  for every class. \<open>blit\<close> writes a bytes literal.
\<close>

definition blit :: "string \<Rightarrow> pybytes" where
  "blit s = map of_char s"

definition lib_jar :: path where
  "lib_jar = \<lparr>path_str = lit ''/srv/lib.jar'', path_name = lit ''lib.jar'',
              path_suffix = lit ''.jar''\<rparr>"

definition lib_entries :: "zip_entry list" where
  "lib_entries =
     [\<lparr>filename = lit ''META-INF/MANIFEST.MF'', content = Inr (blit ''computeTotal'')\<rparr>,
      \<lparr>filename = lit ''A.class'', content = Inr (blit ''..computeTotal..'')\<rparr>,
      \<lparr>filename = lit ''B.class'', content = Inr (blit ''..other..'')\<rparr>,
      \<lparr>filename = lit ''pkg/Foo.class'', content = Inr (blit ''..foo..'')\<rparr>,
      \<lparr>filename = lit ''other/pkg/Foo.class'', content = Inr (blit ''..foo..'')\<rparr>]"

definition example_world :: world where
  "example_world =
     \<lparr>resolve = (\<lambda>s. if s = lit ''/srv/lib.jar'' then Inr lib_jar
                      else Inr \<lparr>path_str = s, path_name = s, path_suffix = lit ''.class''\<rparr>),
      path_exists = (\<lambda>s. Inr (s \<noteq> lit ''/srv/missing.jar'')),
      st_size = (\<lambda>s. 2048),
      open_zip = (\<lambda>s. if s = lit ''/srv/lib.jar'' then Inr lib_entries
                       else Inl (Exn OtherException (lit ''File is not a zip file''))),
      zip_extract = (\<lambda>jar member. Inr (lit ''/tmp/ws/'' @ member)),
      subprocess_run = (\<lambda>cmd timeout. Completed (lit ''int computeTotal() { foo(); }'') [])\<rparr>"

text \<open>The same world with a decompiler that writes one newline to its standard error.\<close>

definition blank_stderr_world :: world where
  "blank_stderr_world =
     example_world\<lparr>subprocess_run :=
       (\<lambda>cmd timeout. Completed (lit ''class A { }'') (lit ''\<newline>''))\<rparr>"

text \<open>The same world with an archive whose member \<open>pkg/Foo.class\<close> cannot be extracted.\<close>

definition broken_extract_world :: world where
  "broken_extract_world =
     example_world\<lparr>zip_extract :=
       (\<lambda>jar member. if member = lit ''pkg/Foo.class''
                     then Inl (Exn OtherException (lit ''Bad CRC-32''))
                     else Inr (lit ''/tmp/ws/'' @ member))\<rparr>"

text \<open>The entry names of the archive behind a path; an archive that cannot be opened has none.\<close>

definition archive_entries :: "world \<Rightarrow> path \<Rightarrow> pystr list" where
  "archive_entries w jar_path =
     (case open_zip w (path_str jar_path) of Inl e \<Rightarrow> [] | Inr infolist \<Rightarrow> map filename infolist)"

text \<open>
  The text \<open>run_cfr_sync\<close> returns for a candidate of an archive search, \<open>None\<close> when the
  candidate's extraction raised, and the block the search labels it with.
\<close>

definition cfr_output :: "world \<Rightarrow> path \<Rightarrow> pystr list \<Rightarrow> pystr \<Rightarrow> pystr option" where
  "cfr_output w jar_path base_cmd_args class_file =
     (case zip_extract w (path_str jar_path) class_file of
        Inl e \<Rightarrow> None
      | Inr extracted_path \<Rightarrow>
          (case fst (run_cfr_sync w
                  ([lit ''java'', lit ''-jar'', CFR_JAR_PATH, extracted_path] @ base_cmd_args)) of
             Inl e \<Rightarrow> None
           | Inr output \<Rightarrow> Some output))"

definition labeled_block :: "pystr \<Rightarrow> pystr \<Rightarrow> pystr" where
  "labeled_block class_file output = lit ''// Source: '' @ class_file @ lit ''\<newline>'' @ output"

text \<open>Calls of the tool used as examples.\<close>

definition no_arguments :: arguments where
  "no_arguments =
     \<lparr>arg_file_path = None, arg_class_name = None, arg_method_name = None,
      arg_ignore_exceptions = None, arg_hide_utf = None, arg_options = None\<rparr>"

definition newline_key_arguments :: arguments where
  "newline_key_arguments =
     no_arguments\<lparr>arg_file_path := Some (lit ''/srv/A.class''),
       arg_options := Some [(lit ''abc\<newline>'', SInt 1), (lit ''a-b'', SBool True),
                            (lit ''a b'', SInt 2), (lit ''sugarboxing'', SBool False)]\<rparr>"

definition both_names_arguments :: arguments where
  "both_names_arguments =
     no_arguments\<lparr>arg_file_path := Some (lit ''/srv/lib.jar''),
       arg_class_name := Some (lit ''Foo''), arg_method_name := Some (lit ''computeTotal'')\<rparr>"

definition class_file_arguments :: arguments where
  "class_file_arguments =
     no_arguments\<lparr>arg_file_path := Some (lit ''/srv/A.class''),
       arg_method_name := Some (lit ''computeTotal''), arg_hide_utf := Some True\<rparr>"

text \<open>
  A call for the method search of \<open>lib.jar\<close> whose method name is one lone surrogate, a
  call whose \<open>file_path\<close> holds a NUL character, and a world in which resolving such a
  path raises, as \<open>Path.resolve\<close> does.
\<close>

definition surrogate_arguments :: arguments where
  "surrogate_arguments =
     no_arguments\<lparr>arg_file_path := Some (lit ''/srv/lib.jar''),
       arg_method_name := Some [0xD800]\<rparr>"

definition nul_path_arguments :: arguments where
  "nul_path_arguments = no_arguments\<lparr>arg_file_path := Some (lit ''/srv/a'' @ [0] @ lit ''.class'')\<rparr>"

definition strict_path_world :: world where
  "strict_path_world =
     example_world\<lparr>resolve :=
       (\<lambda>s. if 0 \<in> set s then Inl (Exn ValueError (lit ''embedded null byte''))
            else resolve example_world s)\<rparr>"

text \<open>
  Well-formed Unicode text: scalar values only, no surrogate and nothing above 10FFFF.
\<close>

definition well_formed_text :: "pystr \<Rightarrow> bool" where
  "well_formed_text s = list_all (\<lambda>c. c < 0x110000 \<and> \<not> (0xD800 \<le> c \<and> c \<le> 0xDFFF)) s"

section \<open>Strings\<close>

lemma startswith_iff: "startswith s p \<longleftrightarrow> (\<exists>t. s = p @ t)"
  by (induction s p rule: startswith.induct) auto

lemma endswith_iff: "endswith s p \<longleftrightarrow> (\<exists>t. s = t @ p)"
proof
  assume "endswith s p"
  then have "s = take (length s - length p) s @ p"
    unfolding endswith_def by (metis append_take_drop_id)
  then show "\<exists>t. s = t @ p" ..
next
  assume "\<exists>t. s = t @ p"
  then show "endswith s p" unfolding endswith_def by auto
qed

lemma py_in_iff: "py_in x s \<longleftrightarrow> (\<exists>a b. s = a @ x @ b)"
proof (induction s)
  case Nil
  then show ?case by auto
next
  case (Cons c cs)
  show ?case
  proof
    assume "py_in x (c # cs)"
    then consider "startswith (c # cs) x" | "py_in x cs" by auto
    then show "\<exists>a b. c # cs = a @ x @ b"
    proof cases
      case 1
      then obtain t where "c # cs = x @ t" by (auto simp: startswith_iff)
      then have "c # cs = [] @ x @ t" by simp
      then show ?thesis by blast
    next
      case 2
      then obtain a b where "cs = a @ x @ b" using Cons.IH by auto
      then have "c # cs = (c # a) @ x @ b" by simp
      then show ?thesis by blast
    qed
  next
    assume "\<exists>a b. c # cs = a @ x @ b"
    then obtain a b where ab: "c # cs = a @ x @ b" by blast
    show "py_in x (c # cs)"
    proof (cases a)
      case Nil
      then have "startswith (c # cs) x" using ab by (simp add: startswith_iff)
      then show ?thesis by simp
    next
      case (Cons a0 as)
      then have "cs = as @ x @ b" using ab by simp
      then show ?thesis using Cons.IH by auto
    qed
  qed
qed

lemma replace_from_single:
  "replace_from [c] [d] s = map (\<lambda>x. if x = c then d else x) s"
  by (induction s) auto

lemma replace_from_absent: "\<not> py_in old s \<Longrightarrow> replace_from old new s = s"
  by (induction s) auto

lemmas ex_defs = example_world_def lib_jar_def lib_entries_def lit_def blit_def

section \<open>Archive Scanner: the scan by method name\<close>

lemma find_classes_loop_sound:
  "c \<in> set (find_classes_loop mb fs cands) \<Longrightarrow>
   c \<in> set cands \<or>
   (\<exists>f bs. f \<in> set fs \<and> filename f = c \<and> endswith c (lit ''.class'')
       \<and> content f = Inr bs \<and> py_in mb bs)"
proof (induction fs arbitrary: cands)
  case Nil
  then show ?case by simp
next
  case (Cons f fs)
  show ?case
  proof (cases "endswith (filename f) (lit ''.class'')")
    case False
    then have "c \<in> set (find_classes_loop mb fs cands)" using Cons.prems by simp
    from Cons.IH[OF this] show ?thesis by auto
  next
    case cls: True
    show ?thesis
    proof (cases "content f")
      case (Inl e)
      then show ?thesis using Cons.prems cls by simp
    next
      case (Inr bs)
      show ?thesis
      proof (cases "py_in mb bs")
        case True
        then have "c \<in> set (find_classes_loop mb fs (cands @ [filename f]))"
          using Cons.prems cls Inr by simp
        from Cons.IH[OF this] show ?thesis using cls Inr True by auto
      next
        case False
        then have "c \<in> set (find_classes_loop mb fs cands)"
          using Cons.prems cls Inr by simp
        from Cons.IH[OF this] show ?thesis by auto
      qed
    qed
  qed
qed

text \<open>
  C6. \<open>find_classes_in_jar\<close> is sound: whenever it returns a list of candidates, every
  candidate ends with \<open>.class\<close> and is the name of an entry of the archive whose bytes,
  as read, contain the UTF-8 encoding of the method name as a contiguous run. Nothing is
  said about entries it does not return.
\<close>

theorem find_classes_in_jar_sound:
  assumes "find_classes_in_jar w jar_path method_name = Inr candidates"
    and "c \<in> set candidates"
  shows "(\<exists>t. c = t @ lit ''.class'') \<and>
         (\<exists>infolist f bytes token.
            open_zip w (path_str jar_path) = Inr infolist \<and> f \<in> set infolist \<and>
            filename f = c \<and> content f = Inr bytes \<and>
            encode_utf8 method_name = Inr token \<and> (\<exists>a b. bytes = a @ token @ b))"
proof -
  from assms(1) obtain token where tok: "encode_utf8 method_name = Inr token"
    by (auto simp: find_classes_in_jar_def split: sum.splits)
  from assms tok obtain infolist where op: "open_zip w (path_str jar_path) = Inr infolist"
    and cands: "candidates = find_classes_loop token infolist []"
    by (cases "open_zip w (path_str jar_path)") (auto simp: find_classes_in_jar_def)
  from assms(2) cands have "c \<in> set (find_classes_loop token infolist [])" by simp
  from find_classes_loop_sound[OF this]
  obtain f bs where "f \<in> set infolist" "filename f = c" "endswith c (lit ''.class'')"
    "content f = Inr bs" "py_in token bs" by auto
  then show ?thesis using tok op by (auto simp: endswith_iff py_in_iff)
qed

theorem find_classes_in_jar_sound_witness:
  "find_classes_in_jar example_world lib_jar (lit ''computeTotal'') = Inr [lit ''A.class'']
   \<and> lit ''A.class'' \<in> set [lit ''A.class'']
   \<and> (\<exists>t. lit ''A.class'' = t @ lit ''.class'')
   \<and> (\<exists>infolist f bytes token.
         open_zip example_world (path_str lib_jar) = Inr infolist \<and> f \<in> set infolist \<and>
         filename f = lit ''A.class'' \<and> content f = Inr bytes \<and>
         encode_utf8 (lit ''computeTotal'') = Inr token \<and> (\<exists>a b. bytes = a @ token @ b))"
proof -
  have scan: "find_classes_in_jar example_world lib_jar (lit ''computeTotal'')
              = Inr [lit ''A.class'']"
    by (simp add: find_classes_in_jar_def ex_defs utf8_char_def endswith_def)
  have mem: "lit ''A.class'' \<in> set [lit ''A.class'']" by simp
  from find_classes_in_jar_sound[OF scan mem] scan mem show ?thesis by blast
qed

section \<open>Archive Scanner: the scan by class name\<close>

lemma find_class_loop_filter:
  "find_class_loop target exact fs cands =
     cands @ filter (\<lambda>n. endswith n (lit ''.class'') \<and>
                          (if exact then n = target
                           else endswith n (lit ''/'' @ target) \<or> n = target))
               (map filename fs)"
  by (induction fs arbitrary: cands) auto

lemma endswith_append: "endswith n (a @ b) \<Longrightarrow> endswith n b"
  by (auto simp: endswith_iff)

lemma endswith_self: "endswith (a @ b) b"
  by (auto simp: endswith_iff)

lemma find_class_by_name_in_jar_filter:
  "find_class_by_name_in_jar w jar_path cname =
     (if py_in (lit ''.'') cname \<and> \<not> endswith cname (lit ''.class'')
      then filter (\<lambda>n. n = py_replace cname (lit ''.'') (lit ''/'') @ lit ''.class'')
             (archive_entries w jar_path)
      else filter (\<lambda>n. n = py_replace cname (lit ''.class'') [] @ lit ''.class'' \<or>
                        endswith n (lit ''/'' @ py_replace cname (lit ''.class'') []
                                    @ lit ''.class''))
             (archive_entries w jar_path))"
proof -
  have ex: "filter (\<lambda>n. endswith n (lit ''.class'') \<and> n = t @ lit ''.class'') ns
            = filter (\<lambda>n. n = t @ lit ''.class'') ns" for t ns
    by (rule filter_cong) (auto simp: endswith_self)
  have si: "filter (\<lambda>n. endswith n (lit ''.class'') \<and>
                     (endswith n (lit ''/'' @ t @ lit ''.class'') \<or> n = t @ lit ''.class'')) ns
            = filter (\<lambda>n. n = t @ lit ''.class'' \<or> endswith n (lit ''/'' @ t @ lit ''.class''))
                ns" for t ns
  proof (rule filter_cong[OF refl])
    fix n
    have "endswith n (lit ''/'' @ t @ lit ''.class'') \<Longrightarrow> endswith n (lit ''.class'')"
      using endswith_append[of n "lit ''/'' @ t" "lit ''.class''"] by simp
    then show "(endswith n (lit ''.class'') \<and>
                (endswith n (lit ''/'' @ t @ lit ''.class'') \<or> n = t @ lit ''.class''))
               = (n = t @ lit ''.class'' \<or> endswith n (lit ''/'' @ t @ lit ''.class''))"
      by (auto simp: endswith_self)
  qed
  show ?thesis
    by (cases "open_zip w (path_str jar_path)")
       (simp_all add: find_class_by_name_in_jar_def archive_entries_def
          find_class_loop_filter ex si)
qed

lemma filter_eq_card: "card (set (filter (\<lambda>n. n = t) ns)) \<le> 1"
proof -
  have "set (filter (\<lambda>n. n = t) ns) \<subseteq> {t}" by auto
  then have "card (set (filter (\<lambda>n. n = t) ns)) \<le> card {t}"
    by (intro card_mono) auto
  then show ?thesis by simp
qed

lemma filter_eq_distinct: "distinct ns \<Longrightarrow> length (filter (\<lambda>n. n = t) ns) \<le> 1"
  by (induction ns) (auto simp: filter_empty_conv)

lemma no_dot_no_class: "46 \<notin> set cname \<Longrightarrow> \<not> py_in (lit ''.class'') cname"
proof
  assume a: "46 \<notin> set cname" and "py_in (lit ''.class'') cname"
  then obtain x y where "cname = x @ lit ''.class'' @ y" by (auto simp: py_in_iff)
  then have "46 \<in> set cname" by (simp add: lit_def)
  with a show False by simp
qed

text \<open>
  C5. For a fully-qualified query (one that contains \<open>.\<close> and does not end with \<open>.class\<close>)
  \<open>find_class_by_name_in_jar\<close> returns exactly the archive's entries equal to the query
  with every \<open>.\<close> replaced by \<open>/\<close>, followed by \<open>.class\<close>: it names at most one path, and
  an archive whose entry names are distinct gives at most one result. For any other
  query it returns exactly the entries that equal \<open>Name.class\<close> or end with
  \<open>/Name.class\<close>, all of them and in the archive's order, where \<open>Name\<close> is the query
  without its occurrences of \<open>.class\<close>; for a query with no \<open>.\<close> at all \<open>Name\<close> is the
  query itself.
\<close>

theorem find_class_by_name_in_jar_exact:
  "(py_in (lit ''.'') cname \<and> \<not> endswith cname (lit ''.class'') \<longrightarrow>
      find_class_by_name_in_jar w jar_path cname
        = filter (\<lambda>n. n = py_replace cname (lit ''.'') (lit ''/'') @ lit ''.class'')
            (archive_entries w jar_path)
      \<and> py_replace cname (lit ''.'') (lit ''/'') = map (\<lambda>c. if c = 46 then 47 else c) cname
      \<and> card (set (find_class_by_name_in_jar w jar_path cname)) \<le> 1
      \<and> (distinct (archive_entries w jar_path) \<longrightarrow>
           length (find_class_by_name_in_jar w jar_path cname) \<le> 1))
   \<and> (\<not> (py_in (lit ''.'') cname \<and> \<not> endswith cname (lit ''.class'')) \<longrightarrow>
      find_class_by_name_in_jar w jar_path cname
        = filter (\<lambda>n. n = py_replace cname (lit ''.class'') [] @ lit ''.class'' \<or>
                      (\<exists>t. n = t @ lit ''/'' @ py_replace cname (lit ''.class'') []
                                 @ lit ''.class''))
            (archive_entries w jar_path))
   \<and> (46 \<notin> set cname \<longrightarrow>
        \<not> py_in (lit ''.'') cname \<and> py_replace cname (lit ''.class'') [] = cname)"
proof (intro conjI impI)
  assume fq: "py_in (lit ''.'') cname \<and> \<not> endswith cname (lit ''.class'')"
  then show eq: "find_class_by_name_in_jar w jar_path cname
        = filter (\<lambda>n. n = py_replace cname (lit ''.'') (lit ''/'') @ lit ''.class'')
            (archive_entries w jar_path)"
    by (simp add: find_class_by_name_in_jar_filter)
  show "py_replace cname (lit ''.'') (lit ''/'') = map (\<lambda>c. if c = 46 then 47 else c) cname"
    by (simp add: py_replace_def lit_def replace_from_single)
  show "card (set (find_class_by_name_in_jar w jar_path cname)) \<le> 1"
    unfolding eq by (rule filter_eq_card)
  show "length (find_class_by_name_in_jar w jar_path cname) \<le> 1"
    if "distinct (archive_entries w jar_path)"
    unfolding eq using that by (rule filter_eq_distinct)
next
  assume nf: "\<not> (py_in (lit ''.'') cname \<and> \<not> endswith cname (lit ''.class''))"
  have "find_class_by_name_in_jar w jar_path cname
        = filter (\<lambda>n. n = py_replace cname (lit ''.class'') [] @ lit ''.class'' \<or>
                      endswith n (lit ''/'' @ py_replace cname (lit ''.class'') []
                                  @ lit ''.class''))
            (archive_entries w jar_path)"
    unfolding find_class_by_name_in_jar_filter by (rule if_not_P[OF nf])
  then show "find_class_by_name_in_jar w jar_path cname
        = filter (\<lambda>n. n = py_replace cname (lit ''.class'') [] @ lit ''.class'' \<or>
                      (\<exists>t. n = t @ lit ''/'' @ py_replace cname (lit ''.class'') []
                                 @ lit ''.class''))
            (archive_entries w jar_path)"
    by (simp only: endswith_iff)
next
  assume nd: "46 \<notin> set cname"
  show "\<not> py_in (lit ''.'') cname"
  proof
    assume "py_in (lit ''.'') cname"
    then obtain x y where "cname = x @ lit ''.'' @ y" by (auto simp: py_in_iff)
    then have "46 \<in> set cname" by (simp add: lit_def)
    with nd show False by simp
  qed
  show "py_replace cname (lit ''.class'') [] = cname"
    using no_dot_no_class[OF nd] by (simp add: py_replace_def replace_from_absent lit_def)
qed

theorem find_class_by_name_in_jar_exact_witness:
  "py_in (lit ''.'') (lit ''pkg.Foo'') \<and> \<not> endswith (lit ''pkg.Foo'') (lit ''.class'')
   \<and> distinct (archive_entries example_world lib_jar)
   \<and> find_class_by_name_in_jar example_world lib_jar (lit ''pkg.Foo'')
       = filter (\<lambda>n. n = lit ''pkg/Foo.class'') (archive_entries example_world lib_jar)
   \<and> find_class_by_name_in_jar example_world lib_jar (lit ''pkg.Foo'') = [lit ''pkg/Foo.class'']
   \<and> length (find_class_by_name_in_jar example_world lib_jar (lit ''pkg.Foo'')) \<le> 1
   \<and> 46 \<notin> set (lit ''Foo'')
   \<and> find_class_by_name_in_jar example_world lib_jar (lit ''Foo'')
       = filter (\<lambda>n. n = lit ''Foo.class'' \<or> (\<exists>t. n = t @ lit ''/Foo.class''))
           (archive_entries example_world lib_jar)
   \<and> find_class_by_name_in_jar example_world lib_jar (lit ''Foo'')
       = [lit ''pkg/Foo.class'', lit ''other/pkg/Foo.class'']"
proof -
  have fq: "py_in (lit ''.'') (lit ''pkg.Foo'') \<and> \<not> endswith (lit ''pkg.Foo'') (lit ''.class'')"
    by (simp add: lit_def endswith_def)
  have dist: "distinct (archive_entries example_world lib_jar)"
    by (simp add: archive_entries_def ex_defs)
  have nd: "46 \<notin> set (lit ''Foo'')" by (simp add: lit_def)
  have r1: "py_replace (lit ''pkg.Foo'') (lit ''.'') (lit ''/'') @ lit ''.class''
            = lit ''pkg/Foo.class''"
    by (simp add: lit_def py_replace_def)
  have r2: "lit ''/'' @ lit ''Foo'' @ lit ''.class'' = lit ''/Foo.class''"
    "lit ''Foo'' @ lit ''.class'' = lit ''Foo.class''"
    by (simp_all add: lit_def)
  note th1 = find_class_by_name_in_jar_exact[of "lit ''pkg.Foo''" example_world lib_jar]
  note th2 = find_class_by_name_in_jar_exact[of "lit ''Foo''" example_world lib_jar]
  have e1: "find_class_by_name_in_jar example_world lib_jar (lit ''pkg.Foo'')
       = filter (\<lambda>n. n = lit ''pkg/Foo.class'') (archive_entries example_world lib_jar)"
    using th1 fq r1 by simp
  have l1: "length (find_class_by_name_in_jar example_world lib_jar (lit ''pkg.Foo'')) \<le> 1"
    using th1 fq dist by blast
  have e2: "find_class_by_name_in_jar example_world lib_jar (lit ''Foo'')
       = filter (\<lambda>n. n = lit ''Foo.class'' \<or> (\<exists>t. n = t @ lit ''/Foo.class''))
           (archive_entries example_world lib_jar)"
    using th2 nd r2 by simp
  have v1: "filter (\<lambda>n. n = lit ''pkg/Foo.class'') (archive_entries example_world lib_jar)
            = [lit ''pkg/Foo.class'']"
    by (simp add: archive_entries_def ex_defs)
  have v2: "filter (\<lambda>n. n = lit ''Foo.class'' \<or> (\<exists>t. n = t @ lit ''/Foo.class''))
              (archive_entries example_world lib_jar)
            = [lit ''pkg/Foo.class'', lit ''other/pkg/Foo.class'']"
    unfolding endswith_iff[symmetric]
    by (simp add: archive_entries_def ex_defs endswith_def)
  show ?thesis using fq dist nd e1 l1 e2 v1 v2 by simp
qed

section \<open>Process Runner\<close>

lemma run_cfr_sync_text:
  "fst (run_cfr_sync w cmd) =
     Inr (case subprocess_run w cmd CMD_TIMEOUT_SECONDS of
            Completed out err \<Rightarrow>
              (if py_strip err \<noteq> []
               then out @ lit ''\<newline>\<newline>/*\<newline>[CFR STDERR]\<newline>'' @ err @ lit ''\<newline>*/''
               else out)
          | ProcRaised e \<Rightarrow>
              (if exn_class_of e = TimeoutExpired
               then lit ''/* Error: Decompilation timed out. (''
                    @ [21453, 32534, 35793, 36229, 26102] @ lit '') */''
               else lit ''/* Error executing CFR: '' @ exn_str e @ lit '' */''))"
proof (cases "subprocess_run w cmd CMD_TIMEOUT_SECONDS")
  case (Completed out err)
  have "err = [] \<Longrightarrow> py_strip err = []" by (simp add: py_strip_def)
  then show ?thesis using Completed by (auto simp: run_cfr_sync_def run_cfr_try_def)
next
  case (ProcRaised e)
  then show ?thesis by (simp add: run_cfr_sync_def run_cfr_try_def)
qed

lemma run_cfr_sync_returns: "\<exists>text. fst (run_cfr_sync w cmd) = Inr text"
  by (simp add: run_cfr_sync_text)

lemma run_cfr_sync_trace: "snd (run_cfr_sync w cmd) = [Subprocess cmd CMD_TIMEOUT_SECONDS]"
  by (simp add: run_cfr_sync_def)

text \<open>
  C3, as amended. \<open>run_cfr_sync\<close> returns text for every command vector and every outcome
  of the child process and never raises: on normal completion the child's standard
  output, followed by the \<open>[CFR STDERR]\<close> comment block exactly when the standard error
  holds a character that is not white space; the fixed timeout diagnostic when
  \<open>subprocess.run\<close> raises TimeoutExpired; and a diagnostic with the exception's text for
  every other exception. It calls \<open>subprocess.run\<close> once.
\<close>

theorem run_cfr_sync_total:
  "(\<exists>text. fst (run_cfr_sync w cmd) = Inr text)
   \<and> fst (run_cfr_sync w cmd) =
     Inr (case subprocess_run w cmd CMD_TIMEOUT_SECONDS of
            Completed out err \<Rightarrow>
              (if py_strip err \<noteq> []
               then out @ lit ''\<newline>\<newline>/*\<newline>[CFR STDERR]\<newline>'' @ err @ lit ''\<newline>*/''
               else out)
          | ProcRaised e \<Rightarrow>
              (if exn_class_of e = TimeoutExpired
               then lit ''/* Error: Decompilation timed out. (''
                    @ [21453, 32534, 35793, 36229, 26102] @ lit '') */''
               else lit ''/* Error executing CFR: '' @ exn_str e @ lit '' */''))
   \<and> snd (run_cfr_sync w cmd) = [Subprocess cmd CMD_TIMEOUT_SECONDS]"
  using run_cfr_sync_text[of w cmd] run_cfr_sync_trace[of w cmd] by simp

text \<open>
  C3 as written has every non-empty standard error appended. A child that completes
  with standard output \<open>class A { }\<close> and a standard error of one newline gets its
  standard output back unchanged.
\<close>

theorem run_cfr_sync_blank_stderr_counterexample:
  "subprocess_run blank_stderr_world [lit ''java''] CMD_TIMEOUT_SECONDS
     = Completed (lit ''class A { }'') (lit ''\<newline>'')
   \<and> lit ''\<newline>'' \<noteq> []
   \<and> fst (run_cfr_sync blank_stderr_world [lit ''java'']) = Inr (lit ''class A { }'')
   \<and> fst (run_cfr_sync blank_stderr_world [lit ''java''])
       \<noteq> Inr (lit ''class A { }'' @ lit ''\<newline>\<newline>/*\<newline>[CFR STDERR]\<newline>'' @ lit ''\<newline>''
                @ lit ''\<newline>*/'')"
  by (simp add: run_cfr_sync_def run_cfr_try_def blank_stderr_world_def example_world_def
        lit_def py_strip_def py_isspace_def)

section \<open>Candidate Decompiler\<close>

lemma decompile_class_loop_eq:
  "decompile_class_loop w jar_path base_cmd_args cs results tr =
     (results @ concat (map (\<lambda>c. fst (decompile_class_candidate w jar_path base_cmd_args c)) cs),
      tr @ concat (map (\<lambda>c. snd (decompile_class_candidate w jar_path base_cmd_args c)) cs))"
  by (induction cs arbitrary: results tr) (auto simp: split_beta)

lemma decompile_method_loop_eq:
  "decompile_method_loop w jar_path method_name base_cmd_args cs results tr =
     (results @ concat (map (\<lambda>c. fst (decompile_method_candidate w jar_path method_name
                                          base_cmd_args c)) cs),
      tr @ concat (map (\<lambda>c. snd (decompile_method_candidate w jar_path method_name
                                     base_cmd_args c)) cs))"
  by (induction cs arbitrary: results tr) (auto simp: split_beta)

lemma decompile_method_candidate_blocks:
  "fst (decompile_method_candidate w jar_path method_name base_cmd_args class_file) =
     (case cfr_output w jar_path base_cmd_args class_file of
        Some output \<Rightarrow> if py_in method_name output then [labeled_block class_file output] else []
      | None \<Rightarrow> [])"
  by (auto simp: decompile_method_candidate_def cfr_output_def labeled_block_def split_beta
           split: sum.splits)

text \<open>
  C7. When the scan finds no candidate, both archive searches return at once with their
  not-found message and an empty trace of effects: no temporary directory is created,
  no entry is extracted and \<open>subprocess.run\<close> is not called. The message of the method
  search names the method, the archive's name and its size in bytes.
\<close>

theorem empty_scan_returns_not_found:
  "(find_classes_in_jar w jar_path method_name = Inr [] \<longrightarrow>
      decompile_jar_method_sync w jar_path method_name base_cmd_args =
        (Inr (lit ''/* Method '' @ [39] @ method_name @ [39]
              @ lit '' not found in any class within '' @ path_name jar_path
              @ lit '' (scanned '' @ str_nat (st_size w (path_str jar_path))
              @ lit '' bytes) */''),
         []))
   \<and> (find_class_by_name_in_jar w jar_path cname = [] \<longrightarrow>
      decompile_jar_class_sync w jar_path cname base_cmd_args =
        (Inr (lit ''/* Class '' @ [39] @ cname @ [39] @ lit '' not found in ''
              @ path_name jar_path
              @ lit ''.\<newline>   Tips: \<newline>   - For simple name, use: 'BusTypeServiceImpl'\<newline>''
              @ lit ''   - For full path, use: 'nc.impl.fts.bustype.BusTypeServiceImpl'\<newline>*/''),
         []))"
  by (simp add: decompile_jar_method_sync_def decompile_jar_class_sync_def)

theorem empty_scan_returns_not_found_witness:
  "find_classes_in_jar example_world lib_jar (lit ''noSuchMethod'') = Inr []
   \<and> decompile_jar_method_sync example_world lib_jar (lit ''noSuchMethod'')
        [lit ''--methodname'', lit ''noSuchMethod'']
      = (Inr (lit ''/* Method 'noSuchMethod' not found in any class within lib.jar (scanned 2048 bytes) */''),
         [])
   \<and> find_class_by_name_in_jar example_world lib_jar (lit ''nope.Foo'') = []
   \<and> decompile_jar_class_sync example_world lib_jar (lit ''nope.Foo'') []
      = (Inr (lit ''/* Class 'nope.Foo' not found in lib.jar.\<newline>   Tips: \<newline>   - For simple name, use: 'BusTypeServiceImpl'\<newline>   - For full path, use: 'nc.impl.fts.bustype.BusTypeServiceImpl'\<newline>*/''),
         [])"
proof -
  have m: "find_classes_in_jar example_world lib_jar (lit ''noSuchMethod'') = Inr []"
    by (simp add: find_classes_in_jar_def ex_defs utf8_char_def endswith_def)
  have c: "find_class_by_name_in_jar example_world lib_jar (lit ''nope.Foo'') = []"
    by (simp add: find_class_by_name_in_jar_def ex_defs endswith_def py_replace_def)
  have sz: "str_nat (st_size example_world (path_str lib_jar)) = lit ''2048''"
    by (simp add: ex_defs)
  note th = empty_scan_returns_not_found[of example_world lib_jar "lit ''noSuchMethod''"
      "[lit ''--methodname'', lit ''noSuchMethod'']" "lit ''nope.Foo''"]
  note th' = empty_scan_returns_not_found[of example_world lib_jar "lit ''noSuchMethod''"
      "[]" "lit ''nope.Foo''"]
  have "decompile_jar_method_sync example_world lib_jar (lit ''noSuchMethod'')
        [lit ''--methodname'', lit ''noSuchMethod'']
      = (Inr (lit ''/* Method 'noSuchMethod' not found in any class within lib.jar (scanned 2048 bytes) */''),
         [])"
    using th m sz by (simp add: lit_def lib_jar_def)
  moreover have "decompile_jar_class_sync example_world lib_jar (lit ''nope.Foo'') []
      = (Inr (lit ''/* Class 'nope.Foo' not found in lib.jar.\<newline>   Tips: \<newline>   - For simple name, use: 'BusTypeServiceImpl'\<newline>   - For full path, use: 'nc.impl.fts.bustype.BusTypeServiceImpl'\<newline>*/''),
         [])"
    using th' c by (simp add: lit_def lib_jar_def)
  ultimately show ?thesis using m c by simp
qed

lemma scan_nonempty_opens:
  assumes "find_classes_in_jar w jar_path method_name = Inr candidates" and "candidates \<noteq> []"
  shows "\<exists>infolist. open_zip w (path_str jar_path) = Inr infolist"
  using assms
  by (cases "open_zip w (path_str jar_path)")
     (auto simp: find_classes_in_jar_def split: sum.splits)

lemma method_messages_differ:
  "lit ''/* Method '' @ [39] @ method_name @ [39] @ lit '' matched binary search in '' @ x
   \<noteq> lit ''/* Method '' @ [39] @ method_name @ [39] @ lit '' not found in any class within '' @ y"
  by (simp add: lit_def)

text \<open>
  C1. Let the scan of \<open>decompile_jar_method_sync\<close> return a list of candidates. If the
  list is empty the result is the not-found message. Otherwise the blocks of the result
  are, in the order of the candidates, the labelled block (\<open>// Source: <entry>\<close>, a
  newline, the text returned by \<open>run_cfr_sync\<close>) of exactly those candidates whose
  returned text contains the method name; a candidate whose extraction raised has no
  such text and no block. The result joins the blocks with a blank line, and when no
  block is kept it is the message \<open>matched binary search ... but CFR produced no
  output\<close>, which is never equal to the not-found message.
\<close>

theorem method_search_post_filter:
  assumes "find_classes_in_jar w jar_path method_name = Inr candidates"
  shows
   "fst (decompile_jar_method_sync w jar_path method_name base_cmd_args) =
      Inr (if candidates = [] then
             lit ''/* Method '' @ [39] @ method_name @ [39]
             @ lit '' not found in any class within '' @ path_name jar_path
             @ lit '' (scanned '' @ str_nat (st_size w (path_str jar_path)) @ lit '' bytes) */''
           else
             (let blocks =
                    concat (map (\<lambda>c. case cfr_output w jar_path base_cmd_args c of
                                        Some output \<Rightarrow>
                                          if py_in method_name output
                                          then [labeled_block c output] else []
                                      | None \<Rightarrow> [])
                              candidates)
              in if blocks = [] then
                   lit ''/* Method '' @ [39] @ method_name @ [39]
                   @ lit '' matched binary search in '' @ str_nat (length candidates)
                   @ lit '' classes but CFR produced no output. */''
                 else py_join (lit ''\<newline>\<newline>'') blocks))
    \<and> (\<forall>b. b \<in> set (concat (map (\<lambda>c. case cfr_output w jar_path base_cmd_args c of
                                        Some output \<Rightarrow>
                                          if py_in method_name output
                                          then [labeled_block c output] else []
                                      | None \<Rightarrow> [])
                              candidates))
          \<longleftrightarrow> (\<exists>c output. c \<in> set candidates
                 \<and> cfr_output w jar_path base_cmd_args c = Some output
                 \<and> py_in method_name output \<and> b = labeled_block c output))
    \<and> lit ''/* Method '' @ [39] @ method_name @ [39]
        @ lit '' matched binary search in '' @ str_nat (length candidates)
        @ lit '' classes but CFR produced no output. */''
      \<noteq> lit ''/* Method '' @ [39] @ method_name @ [39]
        @ lit '' not found in any class within '' @ path_name jar_path
        @ lit '' (scanned '' @ str_nat (st_size w (path_str jar_path)) @ lit '' bytes) */''"
proof (intro conjI)
  show "fst (decompile_jar_method_sync w jar_path method_name base_cmd_args) =
      Inr (if candidates = [] then
             lit ''/* Method '' @ [39] @ method_name @ [39]
             @ lit '' not found in any class within '' @ path_name jar_path
             @ lit '' (scanned '' @ str_nat (st_size w (path_str jar_path)) @ lit '' bytes) */''
           else
             (let blocks =
                    concat (map (\<lambda>c. case cfr_output w jar_path base_cmd_args c of
                                        Some output \<Rightarrow>
                                          if py_in method_name output
                                          then [labeled_block c output] else []
                                      | None \<Rightarrow> [])
                              candidates)
              in if blocks = [] then
                   lit ''/* Method '' @ [39] @ method_name @ [39]
                   @ lit '' matched binary search in '' @ str_nat (length candidates)
                   @ lit '' classes but CFR produced no output. */''
                 else py_join (lit ''\<newline>\<newline>'') blocks))"
  proof (cases "candidates = []")
    case True
    then show ?thesis using assms by (simp add: decompile_jar_method_sync_def)
  next
    case False
    from scan_nonempty_opens[OF assms False] obtain infolist
      where op: "open_zip w (path_str jar_path) = Inr infolist" by blast
    show ?thesis
      using assms False op
      by (simp add: decompile_jar_method_sync_def decompile_method_loop_eq
            decompile_method_candidate_blocks Let_def)
  qed
next
  show "\<forall>b. b \<in> set (concat (map (\<lambda>c. case cfr_output w jar_path base_cmd_args c of
                                        Some output \<Rightarrow>
                                          if py_in method_name output
                                          then [labeled_block c output] else []
                                      | None \<Rightarrow> [])
                              candidates))
          \<longleftrightarrow> (\<exists>c output. c \<in> set candidates
                 \<and> cfr_output w jar_path base_cmd_args c = Some output
                 \<and> py_in method_name output \<and> b = labeled_block c output)"
  proof
    fix b
    have one: "b \<in> set (case cfr_output w jar_path base_cmd_args c of
                          Some output \<Rightarrow>
                            if py_in method_name output then [labeled_block c output] else []
                        | None \<Rightarrow> [])
               \<longleftrightarrow> (\<exists>output. cfr_output w jar_path base_cmd_args c = Some output
                      \<and> py_in method_name output \<and> b = labeled_block c output)" for c
      by (cases "cfr_output w jar_path base_cmd_args c") auto
    show "b \<in> set (concat (map (\<lambda>c. case cfr_output w jar_path base_cmd_args c of
                                        Some output \<Rightarrow>
                                          if py_in method_name output
                                          then [labeled_block c output] else []
                                      | None \<Rightarrow> [])
                              candidates))
          \<longleftrightarrow> (\<exists>c output. c \<in> set candidates
                 \<and> cfr_output w jar_path base_cmd_args c = Some output
                 \<and> py_in method_name output \<and> b = labeled_block c output)"
      unfolding set_concat set_map UN_iff image_iff bex_simps one by blast
  qed
next
  show "lit ''/* Method '' @ [39] @ method_name @ [39]
        @ lit '' matched binary search in '' @ str_nat (length candidates)
        @ lit '' classes but CFR produced no output. */''
      \<noteq> lit ''/* Method '' @ [39] @ method_name @ [39]
        @ lit '' not found in any class within '' @ path_name jar_path
        @ lit '' (scanned '' @ str_nat (st_size w (path_str jar_path)) @ lit '' bytes) */''"
    by (rule method_messages_differ)
qed

lemma example_cfr_output:
  "cfr_output example_world lib_jar args c = Some (lit ''int computeTotal() { foo(); }'')"
  by (simp add: cfr_output_def run_cfr_sync_def run_cfr_try_def example_world_def py_strip_def)

theorem method_search_post_filter_witness:
  "find_classes_in_jar example_world lib_jar (lit ''computeTotal'') = Inr [lit ''A.class'']
   \<and> fst (decompile_jar_method_sync example_world lib_jar (lit ''computeTotal'')
            [lit ''--methodname'', lit ''computeTotal''])
      = Inr (lit ''// Source: A.class\<newline>int computeTotal() { foo(); }'')
   \<and> find_classes_in_jar example_world lib_jar (lit ''other'') = Inr [lit ''B.class'']
   \<and> fst (decompile_jar_method_sync example_world lib_jar (lit ''other'')
            [lit ''--methodname'', lit ''other''])
      = Inr (lit ''/* Method 'other' matched binary search in 1 classes but CFR produced no output. */'')"
proof -
  have s1: "find_classes_in_jar example_world lib_jar (lit ''computeTotal'')
            = Inr [lit ''A.class'']"
    by (simp add: find_classes_in_jar_def ex_defs utf8_char_def endswith_def)
  have s2: "find_classes_in_jar example_world lib_jar (lit ''other'') = Inr [lit ''B.class'']"
    by (simp add: find_classes_in_jar_def ex_defs utf8_char_def endswith_def)
  have i1: "py_in (lit ''computeTotal'') (lit ''int computeTotal() { foo(); }'')"
    by (simp add: lit_def)
  have i2: "\<not> py_in (lit ''other'') (lit ''int computeTotal() { foo(); }'')"
    by (simp add: lit_def)
  have r1: "fst (decompile_jar_method_sync example_world lib_jar (lit ''computeTotal'')
            [lit ''--methodname'', lit ''computeTotal''])
      = Inr (lit ''// Source: A.class\<newline>int computeTotal() { foo(); }'')"
    using method_search_post_filter[OF s1, of "[lit ''--methodname'', lit ''computeTotal'']",
        THEN conjunct1] i1
    by (simp add: example_cfr_output labeled_block_def) (simp add: lit_def)
  have r2: "fst (decompile_jar_method_sync example_world lib_jar (lit ''other'')
            [lit ''--methodname'', lit ''other''])
      = Inr (lit ''/* Method 'other' matched binary search in 1 classes but CFR produced no output. */'')"
    using method_search_post_filter[OF s2, of "[lit ''--methodname'', lit ''other'']",
        THEN conjunct1] i2
    by (simp add: example_cfr_output) (simp add: lit_def)
  show ?thesis using s1 s2 r1 r2 by simp
qed

lemma decompile_class_candidate_failure:
  "zip_extract w (path_str jar_path) class_file = Inl e \<Longrightarrow>
   decompile_class_candidate w jar_path base_cmd_args class_file =
     ([lit ''/* Failed to decompile '' @ class_file @ lit '': '' @ exn_str e @ lit '' */''],
      [Extract class_file])"
  by (simp add: decompile_class_candidate_def)

lemma decompile_method_candidate_failure:
  "zip_extract w (path_str jar_path) class_file = Inl e \<Longrightarrow>
   decompile_method_candidate w jar_path method_name base_cmd_args class_file =
     ([], [Extract class_file])"
  by (simp add: decompile_method_candidate_def)

lemma broken_cfr_output:
  "cfr_output broken_extract_world lib_jar args c =
     (if c = lit ''pkg/Foo.class'' then None else Some (lit ''int computeTotal() { foo(); }''))"
  by (simp add: cfr_output_def run_cfr_sync_def run_cfr_try_def broken_extract_world_def
        example_world_def py_strip_def)

text \<open>
  C2 at a failing input. In an archive where \<open>pkg/Foo.class\<close> cannot be extracted, the
  search for the method \<open>foo\<close> has the candidates \<open>pkg/Foo.class\<close> and
  \<open>other/pkg/Foo.class\<close>. The loop goes on after the failure, but the result holds the
  block of \<open>other/pkg/Foo.class\<close> only and nothing about \<open>pkg/Foo.class\<close>. The search
  for the class \<open>Foo\<close> in the same archive records the failure as a block of its own.
\<close>

theorem method_search_drops_failure_block:
  "find_classes_in_jar broken_extract_world lib_jar (lit ''foo'')
     = Inr [lit ''pkg/Foo.class'', lit ''other/pkg/Foo.class'']
   \<and> zip_extract broken_extract_world (path_str lib_jar) (lit ''pkg/Foo.class'')
     = Inl (Exn OtherException (lit ''Bad CRC-32''))
   \<and> fst (decompile_jar_method_sync broken_extract_world lib_jar (lit ''foo'')
            [lit ''--methodname'', lit ''foo''])
     = Inr (lit ''// Source: other/pkg/Foo.class\<newline>int computeTotal() { foo(); }'')
   \<and> find_class_by_name_in_jar broken_extract_world lib_jar (lit ''Foo'')
     = [lit ''pkg/Foo.class'', lit ''other/pkg/Foo.class'']
   \<and> fst (decompile_jar_class_sync broken_extract_world lib_jar (lit ''Foo'') [])
     = Inr (lit ''/* Failed to decompile pkg/Foo.class: Bad CRC-32 */\<newline>\<newline>// Source: other/pkg/Foo.class\<newline>int computeTotal() { foo(); }'')"
proof -
  have op: "open_zip broken_extract_world (path_str lib_jar) = Inr lib_entries"
    by (simp add: broken_extract_world_def example_world_def lib_jar_def)
  have s: "find_classes_in_jar broken_extract_world lib_jar (lit ''foo'')
     = Inr [lit ''pkg/Foo.class'', lit ''other/pkg/Foo.class'']"
    by (simp add: find_classes_in_jar_def op lib_entries_def lit_def blit_def utf8_char_def
          endswith_def)
  have x: "zip_extract broken_extract_world (path_str lib_jar) (lit ''pkg/Foo.class'')
     = Inl (Exn OtherException (lit ''Bad CRC-32''))"
    by (simp add: broken_extract_world_def example_world_def)
  have ne: "lit ''other/pkg/Foo.class'' \<noteq> lit ''pkg/Foo.class''" by (simp add: lit_def)
  have i: "py_in (lit ''foo'') (lit ''int computeTotal() { foo(); }'')" by (simp add: lit_def)
  have m: "fst (decompile_jar_method_sync broken_extract_world lib_jar (lit ''foo'')
            [lit ''--methodname'', lit ''foo''])
     = Inr (lit ''// Source: other/pkg/Foo.class\<newline>int computeTotal() { foo(); }'')"
    using s op i ne
    by (simp add: decompile_jar_method_sync_def decompile_method_loop_eq
          decompile_method_candidate_blocks broken_cfr_output labeled_block_def)
       (simp add: lit_def)
  have c: "find_class_by_name_in_jar broken_extract_world lib_jar (lit ''Foo'')
     = [lit ''pkg/Foo.class'', lit ''other/pkg/Foo.class'']"
    by (simp add: find_class_by_name_in_jar_def op lib_entries_def lit_def endswith_def
          py_replace_def)
  have o: "decompile_class_candidate broken_extract_world lib_jar [] (lit ''other/pkg/Foo.class'')
     = ([lit ''// Source: other/pkg/Foo.class\<newline>int computeTotal() { foo(); }''],
        [Extract (lit ''other/pkg/Foo.class''),
         Subprocess [lit ''java'', lit ''-jar'', CFR_JAR_PATH, lit ''/tmp/ws/other/pkg/Foo.class'']
           CMD_TIMEOUT_SECONDS])"
    using ne
    by (simp add: decompile_class_candidate_def run_cfr_sync_def run_cfr_try_def
          broken_extract_world_def example_world_def)
       (simp add: lit_def py_strip_def py_isspace_def)
  have k: "fst (decompile_jar_class_sync broken_extract_world lib_jar (lit ''Foo'') [])
     = Inr (lit ''/* Failed to decompile pkg/Foo.class: Bad CRC-32 */\<newline>\<newline>// Source: other/pkg/Foo.class\<newline>int computeTotal() { foo(); }'')"
    using c op
    by (simp add: decompile_jar_class_sync_def decompile_class_loop_eq o
          decompile_class_candidate_failure[OF x])
       (simp add: lit_def)
  show ?thesis using s x m c k by simp
qed

section \<open>Option Sanitizer\<close>

lemma not_alnum_newline: "\<not> is_alnum 10"
  by (simp add: is_alnum_def)

lemma validate_option_key_iff:
  "validate_option_key key \<longleftrightarrow>
     (\<exists>k. k \<noteq> [] \<and> list_all is_alnum k \<and> (key = k \<or> key = k @ [10]))"
proof
  assume v: "validate_option_key key"
  let ?k = "takeWhile is_alnum key"
  have "key = ?k @ dropWhile is_alnum key" by simp
  moreover have "list_all is_alnum ?k"
    by (simp add: list_all_iff) (meson set_takeWhileD)
  moreover from v have "?k \<noteq> []"
    and "dropWhile is_alnum key = [] \<or> dropWhile is_alnum key = [10]"
    by (simp_all add: validate_option_key_def Let_def)
  ultimately show "\<exists>k. k \<noteq> [] \<and> list_all is_alnum k \<and> (key = k \<or> key = k @ [10])"
    by (metis append_Nil2)
next
  assume "\<exists>k. k \<noteq> [] \<and> list_all is_alnum k \<and> (key = k \<or> key = k @ [10])"
  then obtain k where k: "k \<noteq> []" "list_all is_alnum k" "key = k \<or> key = k @ [10]"
    by blast
  from k(2) have all: "\<And>x. x \<in> set k \<Longrightarrow> is_alnum x" by (simp add: list_all_iff)
  have tk: "takeWhile is_alnum k = k" and dk: "dropWhile is_alnum k = []"
    using all by (simp_all add: takeWhile_eq_all_conv)
  from k(3) show "validate_option_key key"
  proof
    assume kk: "key = k"
    show ?thesis unfolding validate_option_key_def Let_def kk tk dk using k(1) by simp
  next
    assume "key = k @ [10]"
    then show ?thesis using k(1) all not_alnum_newline
      by (simp add: validate_option_key_def Let_def takeWhile_append2 dropWhile_append2)
  qed
qed

lemma validate_option_key_chars:
  "validate_option_key key \<Longrightarrow> c \<in> set key \<Longrightarrow> is_alnum c \<or> c = 10"
  by (auto simp: validate_option_key_iff list_all_iff)

lemma options_loop_flags:
  "options_loop kvs acc =
     acc @ concat (map (\<lambda>(key, v). if validate_option_key key then [lit ''--'' @ key, val_str v]
                                     else []) kvs)"
  by (induction kvs arbitrary: acc) auto

lemma val_str_bool:
  "val_str (SBool True) = lit ''true''" "val_str (SBool False) = lit ''false''"
  by (simp_all add: val_str_def py_lower_def lower_char_def lit_def)

lemma val_str_other:
  "val_str (SStr s) = s" "val_str (SInt i) = str_int i" "val_str SNull = lit ''None''"
  "val_str (SOther s) = s"
  by (simp_all add: val_str_def)

text \<open>
  C8 at a failing input. The key \<open>abc\<close> followed by a newline holds a white-space
  character, yet \<open>validate_option_key\<close> accepts it, because \<open>$\<close> also matches before a
  final newline; the call forwards it as the flag \<open>--abc\<close> with the newline. The keys
  \<open>a-b\<close> and \<open>a b\<close> of the same call are dropped, the option \<open>sugarboxing\<close> is forwarded
  and its value \<open>False\<close> is rendered \<open>false\<close>.
\<close>

theorem newline_key_is_forwarded:
  "validate_option_key (lit ''abc\<newline>'')
   \<and> py_isspace 10 \<and> 10 \<in> set (lit ''abc\<newline>'')
   \<and> snd (call_tool example_world (lit ''decompile'') newline_key_arguments)
     = [Subprocess
          [lit ''java'', lit ''-jar'', lit ''cfr.jar'', lit ''/srv/A.class'',
           lit ''--comments'', lit ''false'', lit ''--showversion'', lit ''false'',
           lit ''--abc\<newline>'', lit ''1'', lit ''--sugarboxing'', lit ''false'']
          60]"
proof -
  have v: "validate_option_key (lit ''abc\<newline>'')"
    "\<not> validate_option_key (lit ''a-b'')" "\<not> validate_option_key (lit ''a b'')"
    "validate_option_key (lit ''sugarboxing'')"
    by (simp_all add: validate_option_key_def is_alnum_def lit_def)
  have flags: "options_loop (extra_options newline_key_arguments)
                 (fixed_flags newline_key_arguments [])
     = [lit ''--comments'', lit ''false'', lit ''--showversion'', lit ''false'',
        lit ''--abc\<newline>'', lit ''1'', lit ''--sugarboxing'', lit ''false'']"
    using v
    by (simp add: extra_options_def newline_key_arguments_def no_arguments_def fixed_flags_def
          truthy_bool_def val_str_bool val_str_other str_int_def)
       (simp add: lit_def)
  have "snd (call_tool example_world (lit ''decompile'') newline_key_arguments)
     = [Subprocess ([lit ''java'', lit ''-jar'', lit ''cfr.jar'', lit ''/srv/A.class'']
          @ options_loop (extra_options newline_key_arguments)
              (fixed_flags newline_key_arguments [])) CMD_TIMEOUT_SECONDS]"
    by (simp add: call_tool_def Let_def run_cfr_sync_def truthy_def text_of_def
          newline_key_arguments_def no_arguments_def example_world_def py_lower_def
          CFR_JAR_PATH_def)
       (simp add: lit_def lower_char_def)
  then show ?thesis using v(1) flags
    by (simp add: CFR_JAR_PATH_def CMD_TIMEOUT_SECONDS_def py_isspace_def) (simp add: lit_def)
qed

section \<open>Tool Dispatcher\<close>

lemma call_tool_dispatch:
  assumes "truthy (arg_file_path args)"
    and "resolve w (text_of (arg_file_path args)) = Inr p"
    and "path_exists w (path_str p) = Inr True"
    and "path_exists w CFR_JAR_PATH = Inr True"
  shows "call_tool w (lit ''decompile'') args =
     (let base_args = options_loop (extra_options args) (fixed_flags args []) in
      if py_lower (path_suffix p) = lit ''.jar'' then
        (if truthy (arg_class_name args) then
           decompile_jar_class_sync w p (text_of (arg_class_name args)) base_args
         else if truthy (arg_method_name args) then
           decompile_jar_method_sync w p (text_of (arg_method_name args))
             (base_args @ [lit ''--methodname'', text_of (arg_method_name args)])
         else
           run_cfr_sync w ([lit ''java'', lit ''-jar'', CFR_JAR_PATH, path_str p] @ base_args))
      else
        run_cfr_sync w
          ([lit ''java'', lit ''-jar'', CFR_JAR_PATH, path_str p] @ base_args
           @ (if truthy (arg_method_name args)
              then [lit ''--methodname'', text_of (arg_method_name args)] else [])))"
  using assms by (simp add: call_tool_def Let_def)

text \<open>
  C4. Routing of a \<open>decompile\<close> call that passes validation (\<open>file_path\<close> given, the
  path resolved, the resolved path and the CFR jar existing). An argument counts as given
  when the dispatcher's truth test of \<open>arguments.get\<close> succeeds: it is present and not
  empty. A path is an archive when its suffix, lowered, is \<open>.jar\<close>. For an archive a
  given \<open>class_name\<close> routes to the class-name search, whatever \<open>method_name\<close> is; a given
  \<open>method_name\<close> without \<open>class_name\<close> routes to the method search, with
  \<open>--methodname\<close> and the name appended to the flags; with neither, \<open>run_cfr_sync\<close> is
  called once on the archive itself. For any other path \<open>run_cfr_sync\<close> is called once on
  the file, with \<open>--methodname\<close> and the name appended exactly when \<open>method_name\<close> is
  given.
\<close>

theorem call_tool_routing:
  assumes "truthy (arg_file_path args)"
    and "resolve w (text_of (arg_file_path args)) = Inr p"
    and "path_exists w (path_str p) = Inr True"
    and "path_exists w CFR_JAR_PATH = Inr True"
    and "base_args = options_loop (extra_options args) (fixed_flags args [])"
  shows
   "(py_lower (path_suffix p) = lit ''.jar'' \<and> truthy (arg_class_name args) \<longrightarrow>
       call_tool w (lit ''decompile'') args
         = decompile_jar_class_sync w p (text_of (arg_class_name args)) base_args)
    \<and> (py_lower (path_suffix p) = lit ''.jar'' \<and> \<not> truthy (arg_class_name args)
         \<and> truthy (arg_method_name args) \<longrightarrow>
       call_tool w (lit ''decompile'') args
         = decompile_jar_method_sync w p (text_of (arg_method_name args))
             (base_args @ [lit ''--methodname'', text_of (arg_method_name args)]))
    \<and> (py_lower (path_suffix p) = lit ''.jar'' \<and> \<not> truthy (arg_class_name args)
         \<and> \<not> truthy (arg_method_name args) \<longrightarrow>
       call_tool w (lit ''decompile'') args
         = run_cfr_sync w ([lit ''java'', lit ''-jar'', CFR_JAR_PATH, path_str p] @ base_args)
       \<and> snd (call_tool w (lit ''decompile'') args)
         = [Subprocess ([lit ''java'', lit ''-jar'', CFR_JAR_PATH, path_str p] @ base_args)
              CMD_TIMEOUT_SECONDS])
    \<and> (py_lower (path_suffix p) \<noteq> lit ''.jar'' \<longrightarrow>
       call_tool w (lit ''decompile'') args
         = run_cfr_sync w
             ([lit ''java'', lit ''-jar'', CFR_JAR_PATH, path_str p] @ base_args
              @ (if truthy (arg_method_name args)
                 then [lit ''--methodname'', text_of (arg_method_name args)] else []))
       \<and> snd (call_tool w (lit ''decompile'') args)
         = [Subprocess
              ([lit ''java'', lit ''-jar'', CFR_JAR_PATH, path_str p] @ base_args
               @ (if truthy (arg_method_name args)
                  then [lit ''--methodname'', text_of (arg_method_name args)] else []))
              CMD_TIMEOUT_SECONDS])"
proof -
  note d = call_tool_dispatch[OF assms(1,2,3,4), unfolded Let_def, folded assms(5)]
  show ?thesis
    by (intro conjI impI) (simp_all add: d run_cfr_sync_trace)
qed

theorem call_tool_routing_witness:
  "truthy (arg_file_path both_names_arguments)
   \<and> resolve example_world (text_of (arg_file_path both_names_arguments)) = Inr lib_jar
   \<and> path_exists example_world (path_str lib_jar) = Inr True
   \<and> path_exists example_world CFR_JAR_PATH = Inr True
   \<and> py_lower (path_suffix lib_jar) = lit ''.jar''
   \<and> truthy (arg_class_name both_names_arguments)
   \<and> truthy (arg_method_name both_names_arguments)
   \<and> call_tool example_world (lit ''decompile'') both_names_arguments
     = decompile_jar_class_sync example_world lib_jar (lit ''Foo'')
         [lit ''--comments'', lit ''false'', lit ''--showversion'', lit ''false'']
   \<and> truthy (arg_file_path class_file_arguments)
   \<and> resolve example_world (lit ''/srv/A.class'')
     = Inr \<lparr>path_str = lit ''/srv/A.class'', path_name = lit ''/srv/A.class'',
            path_suffix = lit ''.class''\<rparr>
   \<and> py_lower (lit ''.class'') \<noteq> lit ''.jar''
   \<and> snd (call_tool example_world (lit ''decompile'') class_file_arguments)
     = [Subprocess
          [lit ''java'', lit ''-jar'', lit ''cfr.jar'', lit ''/srv/A.class'', lit ''--hideutf'',
           lit ''true'', lit ''--comments'', lit ''false'', lit ''--showversion'', lit ''false'',
           lit ''--methodname'', lit ''computeTotal'']
          60]"
proof -
  have a1: "truthy (arg_file_path both_names_arguments)"
    by (simp add: truthy_def both_names_arguments_def no_arguments_def lit_def)
  have a2: "resolve example_world (text_of (arg_file_path both_names_arguments)) = Inr lib_jar"
    by (simp add: text_of_def both_names_arguments_def no_arguments_def example_world_def)
  have a3: "path_exists example_world (path_str lib_jar) = Inr True"
    by (simp add: example_world_def lib_jar_def lit_def)
  have a4: "path_exists example_world CFR_JAR_PATH = Inr True"
    by (simp add: example_world_def CFR_JAR_PATH_def lit_def)
  have a5: "[lit ''--comments'', lit ''false'', lit ''--showversion'', lit ''false'']
            = options_loop (extra_options both_names_arguments)
                (fixed_flags both_names_arguments [])"
    by (simp add: extra_options_def fixed_flags_def truthy_bool_def both_names_arguments_def
          no_arguments_def)
  have j: "py_lower (path_suffix lib_jar) = lit ''.jar''"
    by (simp add: lib_jar_def py_lower_def lower_char_def lit_def)
  have c: "truthy (arg_class_name both_names_arguments)"
    and m: "truthy (arg_method_name both_names_arguments)"
    and t: "text_of (arg_class_name both_names_arguments) = lit ''Foo''"
    by (simp_all add: truthy_def text_of_def both_names_arguments_def no_arguments_def lit_def)
  from call_tool_routing[OF a1 a2 a3 a4 a5] j c t
  have r1: "call_tool example_world (lit ''decompile'') both_names_arguments
     = decompile_jar_class_sync example_world lib_jar (lit ''Foo'')
         [lit ''--comments'', lit ''false'', lit ''--showversion'', lit ''false'']"
    by simp
  let ?p = "\<lparr>path_str = lit ''/srv/A.class'', path_name = lit ''/srv/A.class'',
             path_suffix = lit ''.class''\<rparr>"
  have b1: "truthy (arg_file_path class_file_arguments)"
    and bm: "truthy (arg_method_name class_file_arguments)"
    and bt: "text_of (arg_method_name class_file_arguments) = lit ''computeTotal''"
    and bf: "text_of (arg_file_path class_file_arguments) = lit ''/srv/A.class''"
    by (simp_all add: truthy_def text_of_def class_file_arguments_def no_arguments_def lit_def)
  have rs: "resolve example_world (lit ''/srv/A.class'') = Inr ?p"
    by (simp add: example_world_def) (simp add: lit_def)
  have b2: "resolve example_world (text_of (arg_file_path class_file_arguments)) = Inr ?p"
    unfolding bf by (rule rs)
  have b3: "path_exists example_world (path_str ?p) = Inr True"
    by (simp add: example_world_def lit_def)
  have b5: "[lit ''--hideutf'', lit ''true'', lit ''--comments'', lit ''false'',
             lit ''--showversion'', lit ''false'']
            = options_loop (extra_options class_file_arguments)
                (fixed_flags class_file_arguments [])"
    by (simp add: extra_options_def fixed_flags_def truthy_bool_def class_file_arguments_def
          no_arguments_def)
  have nj: "py_lower (path_suffix ?p) \<noteq> lit ''.jar''"
    by (simp add: py_lower_def lower_char_def lit_def)
  have nj': "py_lower (lit ''.class'') \<noteq> lit ''.jar''"
    by (simp add: py_lower_def lower_char_def lit_def)
  from call_tool_routing[OF b1 b2 b3 a4 b5] nj
  have "snd (call_tool example_world (lit ''decompile'') class_file_arguments)
     = [Subprocess
          ([lit ''java'', lit ''-jar'', CFR_JAR_PATH, path_str ?p]
           @ [lit ''--hideutf'', lit ''true'', lit ''--comments'', lit ''false'',
              lit ''--showversion'', lit ''false'']
           @ (if truthy (arg_method_name class_file_arguments)
              then [lit ''--methodname'', text_of (arg_method_name class_file_arguments)]
              else []))
          CMD_TIMEOUT_SECONDS]"
    by blast
  with bm bt
  have r2: "snd (call_tool example_world (lit ''decompile'') class_file_arguments)
     = [Subprocess
          [lit ''java'', lit ''-jar'', lit ''cfr.jar'', lit ''/srv/A.class'', lit ''--hideutf'',
           lit ''true'', lit ''--comments'', lit ''false'', lit ''--showversion'', lit ''false'',
           lit ''--methodname'', lit ''computeTotal'']
          60]"
    by (simp add: CFR_JAR_PATH_def CMD_TIMEOUT_SECONDS_def)
  show ?thesis using a1 a2 a3 a4 j c m r1 b1 rs nj' r2 by simp
qed

lemma well_formed_encodes: "well_formed_text s \<Longrightarrow> \<exists>bs. encode_utf8 s = Inr bs"
proof (induction s)
  case Nil
  then show ?case by simp
next
  case (Cons c cs)
  then obtain rest where "encode_utf8 cs = Inr rest" by (auto simp: well_formed_text_def)
  moreover from Cons.prems have "utf8_char c \<noteq> None"
    by (simp add: well_formed_text_def utf8_char_def)
  then obtain bs where "utf8_char c = Some bs" by blast
  ultimately show ?case by simp
qed

lemma decompile_jar_class_sync_returns:
  "\<exists>text. fst (decompile_jar_class_sync w jar_path cname base_cmd_args) = Inr text"
proof (cases "find_class_by_name_in_jar w jar_path cname = []")
  case True
  then show ?thesis by (simp add: decompile_jar_class_sync_def)
next
  case False
  then obtain infolist where "open_zip w (path_str jar_path) = Inr infolist"
    by (cases "open_zip w (path_str jar_path)")
       (auto simp: find_class_by_name_in_jar_def split_beta)
  with False show ?thesis
    by (simp add: decompile_jar_class_sync_def Let_def split_beta)
qed

lemma run_cfr_sync_no_raise: "fst (run_cfr_sync w cmd) \<noteq> Inl e"
  by (simp add: run_cfr_sync_text)

lemma decompile_jar_class_sync_no_raise:
  "fst (decompile_jar_class_sync w jar_path cname base_cmd_args) \<noteq> Inl e"
  using decompile_jar_class_sync_returns[of w jar_path cname base_cmd_args] by auto

lemma decompile_jar_method_sync_raises:
  "fst (decompile_jar_method_sync w jar_path method_name base_cmd_args) = Inl e
   \<longleftrightarrow> encode_utf8 method_name = Inl e"
proof (cases "encode_utf8 method_name")
  case (Inl e')
  then show ?thesis by (simp add: decompile_jar_method_sync_def find_classes_in_jar_def)
next
  case (Inr bs)
  then obtain cands where c: "find_classes_in_jar w jar_path method_name = Inr cands"
    by (simp add: find_classes_in_jar_def)
  show ?thesis
  proof (cases "cands = []")
    case True
    with c Inr show ?thesis by (simp add: decompile_jar_method_sync_def)
  next
    case False
    from scan_nonempty_opens[OF c False] obtain infolist
      where "open_zip w (path_str jar_path) = Inr infolist" by blast
    with c False Inr show ?thesis
      by (simp add: decompile_jar_method_sync_def split_beta)
  qed
qed

lemma call_tool_validated_raises:
  assumes "truthy (arg_file_path args)"
    and "resolve w (text_of (arg_file_path args)) = Inr p"
    and "path_exists w (path_str p) = Inr True"
    and "path_exists w CFR_JAR_PATH = Inr True"
  shows "fst (call_tool w (lit ''decompile'') args) = Inl e \<longleftrightarrow>
     py_lower (path_suffix p) = lit ''.jar'' \<and> \<not> truthy (arg_class_name args)
     \<and> truthy (arg_method_name args)
     \<and> encode_utf8 (text_of (arg_method_name args)) = Inl e"
  by (auto simp: call_tool_dispatch[OF assms] Let_def decompile_jar_method_sync_raises
        run_cfr_sync_no_raise decompile_jar_class_sync_no_raise)

lemma call_tool_raises_iff:
  "fst (call_tool w (lit ''decompile'') args) = Inl e \<longleftrightarrow>
     (\<not> truthy (arg_file_path args) \<and> e = Exn ValueError (lit ''file_path is required''))
     \<or> (truthy (arg_file_path args)
        \<and> resolve w (text_of (arg_file_path args)) = Inl e)
     \<or> (truthy (arg_file_path args)
        \<and> (\<exists>p. resolve w (text_of (arg_file_path args)) = Inr p
               \<and> path_exists w (path_str p) = Inl e))
     \<or> (truthy (arg_file_path args)
        \<and> (\<exists>p. resolve w (text_of (arg_file_path args)) = Inr p
               \<and> path_exists w (path_str p) = Inr True)
        \<and> path_exists w CFR_JAR_PATH = Inl e)
     \<or> (truthy (arg_file_path args)
        \<and> (\<exists>p. resolve w (text_of (arg_file_path args)) = Inr p
               \<and> path_exists w (path_str p) = Inr True
               \<and> py_lower (path_suffix p) = lit ''.jar'')
        \<and> path_exists w CFR_JAR_PATH = Inr True
        \<and> \<not> truthy (arg_class_name args) \<and> truthy (arg_method_name args)
        \<and> encode_utf8 (text_of (arg_method_name args)) = Inl e)"
proof (cases "truthy (arg_file_path args)")
  case False
  then show ?thesis by (auto simp: call_tool_def)
next
  case fp: True
  show ?thesis
  proof (cases "resolve w (text_of (arg_file_path args))")
    case (Inl e')
    then show ?thesis using fp by (auto simp: call_tool_def)
  next
    case rp: (Inr p)
    show ?thesis
    proof (cases "path_exists w (path_str p)")
      case (Inl e')
      then show ?thesis using fp rp by (auto simp: call_tool_def)
    next
      case ex: (Inr found)
      show ?thesis
      proof (cases found)
        case False
        then show ?thesis using fp rp ex by (auto simp: call_tool_def)
      next
        case found: True
        show ?thesis
        proof (cases "path_exists w CFR_JAR_PATH")
          case (Inl e')
          then show ?thesis using fp rp ex found by (auto simp: call_tool_def)
        next
          case cfr: (Inr cfr_found)
          show ?thesis
          proof (cases cfr_found)
            case False
            then show ?thesis using fp rp ex found cfr by (auto simp: call_tool_def)
          next
            case True
            have ex': "path_exists w (path_str p) = Inr True" using ex found by simp
            have cfr': "path_exists w CFR_JAR_PATH = Inr True" using cfr True by simp
            show ?thesis
              unfolding call_tool_validated_raises[OF fp rp ex' cfr']
              using fp rp ex' cfr' by auto
          qed
        qed
      qed
    qed
  qed
qed

text \<open>
  C9, as amended. For arguments whose integers are within the limit of \<open>str()\<close>: a
  \<open>decompile\<close> call whose \<open>file_path\<close> is missing (absent or empty) raises ValueError
  \<open>file_path is required\<close> with no effect, but this is not the only call that raises.
  An exception raised by \<open>Path(file_path).resolve()\<close> or by one of the two \<open>exists()\<close>
  checks propagates, and so does the UnicodeEncodeError of \<open>method_name.encode\<close> in the
  method search of an archive; the call raises in these cases and in no other. When the
  path resolves and the checks return, a \<open>file_path\<close> that resolves to a path that does
  not exist returns the text \<open>Error: File not found: \<close> followed by the path, and a
  missing CFR jar returns the text \<open>Error: CFR jar not found at: cfr.jar\<close>; both return
  without raising and with an empty trace, so no child process is started.
\<close>

theorem call_tool_hard_failure:
  assumes "convertible_arguments args"
  shows
  "(\<not> truthy (arg_file_path args) \<longrightarrow>
      call_tool w (lit ''decompile'') args
        = (Inl (Exn ValueError (lit ''file_path is required'')), []))
   \<and> (truthy (arg_file_path args)
       \<and> resolve w (text_of (arg_file_path args)) = Inr p
       \<and> path_exists w (path_str p) = Inr False \<longrightarrow>
      call_tool w (lit ''decompile'') args
        = (Inr (lit ''Error: File not found: '' @ path_str p), []))
   \<and> (truthy (arg_file_path args)
       \<and> resolve w (text_of (arg_file_path args)) = Inr p
       \<and> path_exists w (path_str p) = Inr True
       \<and> path_exists w CFR_JAR_PATH = Inr False \<longrightarrow>
      call_tool w (lit ''decompile'') args
        = (Inr (lit ''Error: CFR jar not found at: cfr.jar''), []))
   \<and> (fst (call_tool w (lit ''decompile'') args) = Inl e \<longleftrightarrow>
       (\<not> truthy (arg_file_path args) \<and> e = Exn ValueError (lit ''file_path is required''))
       \<or> (truthy (arg_file_path args)
          \<and> resolve w (text_of (arg_file_path args)) = Inl e)
       \<or> (truthy (arg_file_path args)
          \<and> (\<exists>p. resolve w (text_of (arg_file_path args)) = Inr p
                 \<and> path_exists w (path_str p) = Inl e))
       \<or> (truthy (arg_file_path args)
          \<and> (\<exists>p. resolve w (text_of (arg_file_path args)) = Inr p
                 \<and> path_exists w (path_str p) = Inr True)
          \<and> path_exists w CFR_JAR_PATH = Inl e)
       \<or> (truthy (arg_file_path args)
          \<and> (\<exists>p. resolve w (text_of (arg_file_path args)) = Inr p
                 \<and> path_exists w (path_str p) = Inr True
                 \<and> py_lower (path_suffix p) = lit ''.jar'')
          \<and> path_exists w CFR_JAR_PATH = Inr True
          \<and> \<not> truthy (arg_class_name args) \<and> truthy (arg_method_name args)
          \<and> encode_utf8 (text_of (arg_method_name args)) = Inl e))"
proof (intro conjI impI)
  show "fst (call_tool w (lit ''decompile'') args) = Inl e \<longleftrightarrow>
       (\<not> truthy (arg_file_path args) \<and> e = Exn ValueError (lit ''file_path is required''))
       \<or> (truthy (arg_file_path args)
          \<and> resolve w (text_of (arg_file_path args)) = Inl e)
       \<or> (truthy (arg_file_path args)
          \<and> (\<exists>p. resolve w (text_of (arg_file_path args)) = Inr p
                 \<and> path_exists w (path_str p) = Inl e))
       \<or> (truthy (arg_file_path args)
          \<and> (\<exists>p. resolve w (text_of (arg_file_path args)) = Inr p
                 \<and> path_exists w (path_str p) = Inr True)
          \<and> path_exists w CFR_JAR_PATH = Inl e)
       \<or> (truthy (arg_file_path args)
          \<and> (\<exists>p. resolve w (text_of (arg_file_path args)) = Inr p
                 \<and> path_exists w (path_str p) = Inr True
                 \<and> py_lower (path_suffix p) = lit ''.jar'')
          \<and> path_exists w CFR_JAR_PATH = Inr True
          \<and> \<not> truthy (arg_class_name args) \<and> truthy (arg_method_name args)
          \<and> encode_utf8 (text_of (arg_method_name args)) = Inl e)"
    by (rule call_tool_raises_iff)
qed (simp_all add: call_tool_def CFR_JAR_PATH_def lit_def)

text \<open>
  C9 as written makes a missing \<open>file_path\<close> the only call that raises. With
  \<open>file_path\<close> given, the method search of the existing archive \<open>lib.jar\<close> for a method
  name that is one lone surrogate raises UnicodeEncodeError, and a \<open>file_path\<close> with a
  NUL character raises the ValueError of \<open>Path.resolve\<close>.
\<close>

theorem call_tool_other_raises_counterexample:
  "truthy (arg_file_path surrogate_arguments)
   \<and> fst (call_tool example_world (lit ''decompile'') surrogate_arguments)
     = Inl (Exn UnicodeEncodeError (lit ''surrogates not allowed''))
   \<and> truthy (arg_file_path nul_path_arguments)
   \<and> fst (call_tool strict_path_world (lit ''decompile'') nul_path_arguments)
     = Inl (Exn ValueError (lit ''embedded null byte''))"
proof -
  have t: "truthy (arg_file_path surrogate_arguments)"
    "truthy (arg_method_name surrogate_arguments)"
    "\<not> truthy (arg_class_name surrogate_arguments)"
    "text_of (arg_file_path surrogate_arguments) = lit ''/srv/lib.jar''"
    "text_of (arg_method_name surrogate_arguments) = [0xD800]"
    by (simp_all add: truthy_def text_of_def surrogate_arguments_def no_arguments_def lit_def)
  have r: "resolve example_world (text_of (arg_file_path surrogate_arguments)) = Inr lib_jar"
    unfolding t(4) by (simp add: example_world_def)
  have x: "path_exists example_world (path_str lib_jar) = Inr True"
    "path_exists example_world CFR_JAR_PATH = Inr True"
    by (simp_all add: example_world_def lib_jar_def CFR_JAR_PATH_def lit_def)
  have j: "py_lower (path_suffix lib_jar) = lit ''.jar''"
    by (simp add: lib_jar_def py_lower_def lower_char_def lit_def)
  have en: "encode_utf8 [0xD800] = Inl (Exn UnicodeEncodeError (lit ''surrogates not allowed''))"
    by (simp add: utf8_char_def)
  have s: "fst (call_tool example_world (lit ''decompile'') surrogate_arguments)
     = Inl (Exn UnicodeEncodeError (lit ''surrogates not allowed''))"
    unfolding call_tool_validated_raises[OF t(1) r x] using j t(2,3) en unfolding t(5)
    by simp
  have n: "truthy (arg_file_path nul_path_arguments)"
    by (simp add: truthy_def nul_path_arguments_def no_arguments_def lit_def)
  have nr: "resolve strict_path_world (text_of (arg_file_path nul_path_arguments))
     = Inl (Exn ValueError (lit ''embedded null byte''))"
    by (simp add: strict_path_world_def text_of_def nul_path_arguments_def no_arguments_def)
  have "fst (call_tool strict_path_world (lit ''decompile'') nul_path_arguments)
     = Inl (Exn ValueError (lit ''embedded null byte''))"
    using n nr by (simp add: call_tool_def)
  with t(1) s n show ?thesis by simp
qed

theorem call_tool_hard_failure_witness:
  "convertible_arguments no_arguments
   \<and> \<not> truthy (arg_file_path no_arguments)
   \<and> call_tool example_world (lit ''decompile'') no_arguments
     = (Inl (Exn ValueError (lit ''file_path is required'')), [])
   \<and> convertible_arguments (no_arguments\<lparr>arg_file_path := Some (lit ''/srv/missing.jar'')\<rparr>)
   \<and> truthy (arg_file_path (no_arguments\<lparr>arg_file_path := Some (lit ''/srv/missing.jar'')\<rparr>))
   \<and> path_exists example_world (lit ''/srv/missing.jar'') = Inr False
   \<and> call_tool example_world (lit ''decompile'')
        (no_arguments\<lparr>arg_file_path := Some (lit ''/srv/missing.jar'')\<rparr>)
     = (Inr (lit ''Error: File not found: /srv/missing.jar''), [])
   \<and> convertible_arguments newline_key_arguments
   \<and> truthy (arg_file_path newline_key_arguments)
   \<and> path_exists (example_world\<lparr>path_exists := (\<lambda>s. Inr (s \<noteq> lit ''cfr.jar''))\<rparr>) CFR_JAR_PATH
     = Inr False
   \<and> call_tool (example_world\<lparr>path_exists := (\<lambda>s. Inr (s \<noteq> lit ''cfr.jar''))\<rparr>)
        (lit ''decompile'') newline_key_arguments
     = (Inr (lit ''Error: CFR jar not found at: cfr.jar''), [])
   \<and> (\<nexists>e. fst (call_tool example_world (lit ''decompile'') newline_key_arguments) = Inl e)"
proof -
  let ?a = "no_arguments\<lparr>arg_file_path := Some (lit ''/srv/missing.jar'')\<rparr>"
  let ?w = "example_world\<lparr>path_exists := (\<lambda>s. Inr (s \<noteq> lit ''cfr.jar''))\<rparr>"
  let ?pm = "\<lparr>path_str = lit ''/srv/missing.jar'', path_name = lit ''/srv/missing.jar'',
              path_suffix = lit ''.class''\<rparr>"
  let ?pa = "\<lparr>path_str = lit ''/srv/A.class'', path_name = lit ''/srv/A.class'',
              path_suffix = lit ''.class''\<rparr>"
  have cv: "convertible_arguments no_arguments" "convertible_arguments ?a"
    "convertible_arguments newline_key_arguments"
    by (simp_all add: convertible_arguments_def no_arguments_def newline_key_arguments_def
          int_max_str_digits_def)
  have n: "\<not> truthy (arg_file_path no_arguments)"
    by (simp add: truthy_def no_arguments_def)
  have t: "truthy (arg_file_path ?a)" "text_of (arg_file_path ?a) = lit ''/srv/missing.jar''"
    by (simp_all add: truthy_def text_of_def lit_def)
  have m: "path_exists example_world (lit ''/srv/missing.jar'') = Inr False"
    by (simp add: example_world_def)
  have rm: "resolve example_world (text_of (arg_file_path ?a)) = Inr ?pm"
    unfolding t(2) by (simp add: example_world_def) (simp add: lit_def)
  have m': "path_exists example_world (path_str ?pm) = Inr False"
    using m by simp
  have c: "truthy (arg_file_path newline_key_arguments)"
    "text_of (arg_file_path newline_key_arguments) = lit ''/srv/A.class''"
    "\<not> truthy (arg_method_name newline_key_arguments)"
    by (simp_all add: truthy_def text_of_def newline_key_arguments_def no_arguments_def lit_def)
  have ra: "resolve ?w (text_of (arg_file_path newline_key_arguments)) = Inr ?pa"
    "resolve example_world (text_of (arg_file_path newline_key_arguments)) = Inr ?pa"
    unfolding c(2) by (simp_all add: example_world_def) (simp_all add: lit_def)
  have j: "path_exists ?w CFR_JAR_PATH = Inr False"
    "path_exists ?w (path_str ?pa) = Inr True"
    by (simp_all add: CFR_JAR_PATH_def lit_def)
  have k: "path_exists example_world (path_str ?pa) = Inr True"
    "path_exists example_world CFR_JAR_PATH = Inr True"
    by (simp_all add: example_world_def CFR_JAR_PATH_def lit_def)
  note th1 = call_tool_hard_failure[OF cv(1), of example_world]
  note th2 = call_tool_hard_failure[OF cv(2), of example_world ?pm]
  note th3 = call_tool_hard_failure[OF cv(3), of ?w ?pa]
  have r1: "call_tool example_world (lit ''decompile'') no_arguments
     = (Inl (Exn ValueError (lit ''file_path is required'')), [])"
    using th1 n by blast
  have "call_tool example_world (lit ''decompile'') ?a
     = (Inr (lit ''Error: File not found: '' @ path_str ?pm), [])"
    using th2 t(1) rm m' by blast
  then have r2: "call_tool example_world (lit ''decompile'') ?a
     = (Inr (lit ''Error: File not found: /srv/missing.jar''), [])"
    by (simp add: lit_def)
  have r3: "call_tool ?w (lit ''decompile'') newline_key_arguments
     = (Inr (lit ''Error: CFR jar not found at: cfr.jar''), [])"
    using th3 c(1) ra(1) j by blast
  have r4: "\<nexists>e. fst (call_tool example_world (lit ''decompile'') newline_key_arguments) = Inl e"
  proof
    assume "\<exists>e. fst (call_tool example_world (lit ''decompile'') newline_key_arguments) = Inl e"
    then obtain e
      where e: "fst (call_tool example_world (lit ''decompile'') newline_key_arguments) = Inl e"
      by blast
    from call_tool_hard_failure[OF cv(3), of example_world ?pa e] e c(1,3) ra(2) k
    show False by auto
  qed
  show ?thesis using cv n r1 t(1) m r2 c(1) j(1) r3 r4 by blast
qed

section \<open>The two servers\<close>

lemma options_loop_append: "options_loop kvs (xs @ ys) = xs @ options_loop kvs ys"
  by (simp add: options_loop_flags)

lemma fixed_flags_append: "fixed_flags args xs = xs @ fixed_flags args []"
  by (simp add: fixed_flags_def Let_def)

lemma v1_command:
  "options_loop (extra_options args) (fixed_flags args xs)
   = xs @ options_loop (extra_options args) (fixed_flags args [])"
  using fixed_flags_append[of args xs] options_loop_append[of "extra_options args" xs]
  by simp

text \<open>
  C10. Take a \<open>decompile\<close> call with \<open>file_path\<close> given, neither \<open>method_name\<close> nor
  \<open>class_name\<close> given, the path resolved, the resolved path and the CFR jar existing.
  Both servers call \<open>subprocess.run\<close> exactly once, with the same command vector:
  \<open>java\<close>, \<open>-jar\<close>, \<open>cfr.jar\<close>, the resolved path, then the same flags in the same
  order. The first server passes the timeout 30, the second 60. Whenever the child
  process completes with the same outcome under both timeouts, the two calls return the
  same text.
\<close>

theorem call_tool_v1_v2_same_command:
  assumes "truthy (arg_file_path args)"
    and "resolve w (text_of (arg_file_path args)) = Inr p"
    and "path_exists w (path_str p) = Inr True"
    and "path_exists w CFR_JAR_PATH = Inr True"
    and "\<not> truthy (arg_method_name args)"
    and "\<not> truthy (arg_class_name args)"
    and "cmd = [lit ''java'', lit ''-jar'', lit ''cfr.jar'', path_str p]
               @ options_loop (extra_options args) (fixed_flags args [])"
  shows "snd (call_tool_v1 w (lit ''decompile'') args) = [Subprocess cmd 30]
    \<and> snd (call_tool w (lit ''decompile'') args) = [Subprocess cmd 60]
    \<and> ((\<exists>out err. subprocess_run w cmd 30 = Completed out err
                    \<and> subprocess_run w cmd 60 = Completed out err) \<longrightarrow>
         fst (call_tool_v1 w (lit ''decompile'') args)
           = fst (call_tool w (lit ''decompile'') args))"
proof -
  have c1: "call_tool_v1 w (lit ''decompile'') args = run_cfr_sync_v1 w cmd"
    using assms(1,2,3,4,5)
      v1_command[of args "[lit ''java'', lit ''-jar'', CFR_JAR_PATH, path_str p]"]
    by (simp add: call_tool_v1_def Let_def assms(7) CFR_JAR_PATH_def)
  have c2: "call_tool w (lit ''decompile'') args = run_cfr_sync w cmd"
    using assms(5,6)
    by (simp add: call_tool_dispatch[OF assms(1,2,3,4)] Let_def assms(7) CFR_JAR_PATH_def)
  show ?thesis
    unfolding c1 c2
    by (auto simp: run_cfr_sync_v1_def run_cfr_sync_def run_cfr_try_def
          CMD_TIMEOUT_SECONDS_v1_def CMD_TIMEOUT_SECONDS_def)
qed

theorem call_tool_v1_v2_same_command_witness:
  "truthy (arg_file_path newline_key_arguments)
   \<and> resolve example_world (text_of (arg_file_path newline_key_arguments))
     = Inr \<lparr>path_str = lit ''/srv/A.class'', path_name = lit ''/srv/A.class'',
            path_suffix = lit ''.class''\<rparr>
   \<and> path_exists example_world (lit ''/srv/A.class'') = Inr True
   \<and> path_exists example_world CFR_JAR_PATH = Inr True
   \<and> \<not> truthy (arg_method_name newline_key_arguments)
   \<and> \<not> truthy (arg_class_name newline_key_arguments)
   \<and> snd (call_tool_v1 example_world (lit ''decompile'') newline_key_arguments)
     = [Subprocess
          [lit ''java'', lit ''-jar'', lit ''cfr.jar'', lit ''/srv/A.class'',
           lit ''--comments'', lit ''false'', lit ''--showversion'', lit ''false'',
           lit ''--abc\<newline>'', lit ''1'', lit ''--sugarboxing'', lit ''false'']
          30]
   \<and> snd (call_tool example_world (lit ''decompile'') newline_key_arguments)
     = [Subprocess
          [lit ''java'', lit ''-jar'', lit ''cfr.jar'', lit ''/srv/A.class'',
           lit ''--comments'', lit ''false'', lit ''--showversion'', lit ''false'',
           lit ''--abc\<newline>'', lit ''1'', lit ''--sugarboxing'', lit ''false'']
          60]
   \<and> fst (call_tool_v1 example_world (lit ''decompile'') newline_key_arguments)
     = fst (call_tool example_world (lit ''decompile'') newline_key_arguments)"
proof -
  let ?cmd = "[lit ''java'', lit ''-jar'', lit ''cfr.jar'', lit ''/srv/A.class'',
           lit ''--comments'', lit ''false'', lit ''--showversion'', lit ''false'',
           lit ''--abc\<newline>'', lit ''1'', lit ''--sugarboxing'', lit ''false'']"
  let ?p = "\<lparr>path_str = lit ''/srv/A.class'', path_name = lit ''/srv/A.class'',
             path_suffix = lit ''.class''\<rparr>"
  have a1: "truthy (arg_file_path newline_key_arguments)"
    and a5: "\<not> truthy (arg_method_name newline_key_arguments)"
    and a6: "\<not> truthy (arg_class_name newline_key_arguments)"
    and tx: "text_of (arg_file_path newline_key_arguments) = lit ''/srv/A.class''"
    by (simp_all add: truthy_def text_of_def newline_key_arguments_def no_arguments_def lit_def)
  have a2: "resolve example_world (text_of (arg_file_path newline_key_arguments)) = Inr ?p"
    unfolding tx by (simp add: example_world_def) (simp add: lit_def)
  have a3': "path_exists example_world (lit ''/srv/A.class'') = Inr True"
    by (simp add: example_world_def lit_def)
  have a3: "path_exists example_world (path_str ?p) = Inr True"
    using a3' by simp
  have a4: "path_exists example_world CFR_JAR_PATH = Inr True"
    by (simp add: example_world_def CFR_JAR_PATH_def lit_def)
  have v: "validate_option_key (lit ''abc\<newline>'')"
    "\<not> validate_option_key (lit ''a-b'')" "\<not> validate_option_key (lit ''a b'')"
    "validate_option_key (lit ''sugarboxing'')"
    by (simp_all add: validate_option_key_def is_alnum_def lit_def)
  have flags: "options_loop (extra_options newline_key_arguments)
                 (fixed_flags newline_key_arguments [])
     = [lit ''--comments'', lit ''false'', lit ''--showversion'', lit ''false'',
        lit ''--abc\<newline>'', lit ''1'', lit ''--sugarboxing'', lit ''false'']"
    using v
    by (simp add: extra_options_def newline_key_arguments_def no_arguments_def fixed_flags_def
          truthy_bool_def val_str_bool val_str_other str_int_def)
       (simp add: lit_def)
  have a7: "?cmd = [lit ''java'', lit ''-jar'', lit ''cfr.jar'', path_str ?p]
               @ options_loop (extra_options newline_key_arguments)
                   (fixed_flags newline_key_arguments [])"
    unfolding flags by simp
  have same: "\<exists>out err. subprocess_run example_world ?cmd 30 = Completed out err
                    \<and> subprocess_run example_world ?cmd 60 = Completed out err"
    by (simp add: example_world_def)
  from call_tool_v1_v2_same_command[OF a1 a2 a3 a4 a5 a6 a7] same
  have "snd (call_tool_v1 example_world (lit ''decompile'') newline_key_arguments)
          = [Subprocess ?cmd 30]
    \<and> snd (call_tool example_world (lit ''decompile'') newline_key_arguments)
          = [Subprocess ?cmd 60]
    \<and> fst (call_tool_v1 example_world (lit ''decompile'') newline_key_arguments)
     = fst (call_tool example_world (lit ''decompile'') newline_key_arguments)"
    by blast
  then show ?thesis using a1 a2 a3' a4 a5 a6 by blast
qed

end
